theory Spec2Isabelle
  imports Main "HOL-Library.Multiset"
begin

section \<open>SAML session middleware (samlsp/middleware.go)\<close>

text \<open>
  The middleware is embedded function by function. Code it calls in other packages
  (net/http, jwt-go, the saml protocol engine) is represented at the call boundary:
  a handler's writes to its \<open>http.ResponseWriter\<close> are the list of calls it made, in
  order; a panic is the result \<open>Panic\<close>; the clock, the random source, the order of
  map iteration and the protocol engine are arguments.
\<close>

subsection \<open>Values\<close>

text \<open>What \<open>encoding/json\<close> stores in an \<open>interface{}\<close>: the dynamic shapes the
  type assertions of the middleware distinguish.\<close>

datatype json = JNull | JBool bool | JNum int | JStr string | JArr "json list"
  | JObj "(string \<times> json) list"

text \<open>A Go \<open>map[string]T\<close> as an association list. The order of the list means nothing:
  a \<open>range\<close> over a map visits its entries in an order the runtime chooses (see
  \<open>RangeOrder\<close> below).\<close>

type_synonym claims = "(string \<times> json) list"

text \<open>\<open>m[k] = v\<close>\<close>

fun assign :: "string \<Rightarrow> 'v \<Rightarrow> (string \<times> 'v) list \<Rightarrow> (string \<times> 'v) list" where
  "assign k v [] = [(k, v)]"
| "assign k v ((k', v') # m) = (if k = k' then (k, v) # m else (k', v') # assign k v m)"

text \<open>\<open>json.Unmarshal\<close> of an object into a map: a repeated key keeps its last value.\<close>

definition Unmarshal :: "claims \<Rightarrow> claims" where
  "Unmarshal obj = foldl (\<lambda>m (k, v). assign k v m) [] obj"

datatype alg = ES256 | ES384 | ES512 | HS256 | HS384 | HS512
  | RS256 | RS384 | RS512 | PS256 | PS384 | PS512 | AlgNone | AlgUnknown string

text \<open>\<open>*rsa.PrivateKey\<close>: the key pair's identity, and whether signing with it succeeds.\<close>

record rsa_key =
  key_id :: nat
  usable :: bool

definition Public :: "rsa_key \<Rightarrow> nat" where
  "Public k = key_id k"

text \<open>A signature is symbolic: \<open>Sig k a c\<close> is what method \<open>a\<close> produces over the claims
  \<open>c\<close> with the private half of key \<open>k\<close>; any other third segment is \<open>NoSig\<close>.\<close>

datatype signature = Sig nat alg claims | NoSig string

text \<open>A Go string that may be a compact JWT. \<open>Str s\<close> is a string that does not split
  into a decodable header, claims object and signature; the empty string is \<open>Str []\<close>.\<close>

datatype gostring = Str string | Jwt alg claims signature

record token =
  Method :: alg
  Claims :: claims
  Valid :: bool

datatype jwt_error = ErrMalformed | ErrUnverifiable | ErrExpired | ErrSignatureInvalid

datatype 'a result = Panic string | Done 'a

subsection \<open>Token codec (jwt-go)\<close>

text \<open>Modelled from the spec: the Token Codec's \<open>sign\<close>, which is \<open>Token.SignedString\<close> of
  the jwt-go dependency (absent from src/). It signs the claims with the one private key
  and fails only on a local key or signing malfunction.\<close>

definition SignedString :: "alg \<Rightarrow> claims \<Rightarrow> rsa_key \<Rightarrow> string + gostring" where
  "SignedString method c key =
     (if usable key then Inr (Jwt method c (Sig (Public key) method c))
      else Inl ''crypto/rsa: signing failed'')"

text \<open>The expiry claim is a JSON number of seconds; a token is expired when it lies in
  the past. A token without such a claim (a correlation token) does not expire.\<close>

definition expired :: "int \<Rightarrow> claims \<Rightarrow> bool" where
  "expired now c = (case map_of c ''exp'' of Some (JNum e) \<Rightarrow> e < now | _ \<Rightarrow> False)"

text \<open>Modelled from the spec: the Token Codec's \<open>verify\<close>, which is \<open>jwt.Parse\<close> of the
  jwt-go dependency (absent from src/). It rejects a malformed string, an algorithm
  that is not registered or that the caller's key function refuses, a signature not produced
  by the private half of the key the key function returns, and an expired token; otherwise
  it returns the token with its decoded claims and \<open>Valid\<close> set.\<close>

definition Parse :: "int \<Rightarrow> gostring \<Rightarrow> (token \<Rightarrow> string + nat) \<Rightarrow> jwt_error + token" where
  "Parse now tokenString keyFunc =
     (case tokenString of
        Str s \<Rightarrow> Inl ErrMalformed
      | Jwt a obj sg \<Rightarrow>
          (case a of
             AlgUnknown n \<Rightarrow> Inl ErrUnverifiable
           | _ \<Rightarrow>
              (let t = \<lparr>Method = a, Claims = Unmarshal obj, Valid = False\<rparr> in
               case keyFunc t of
                 Inl err \<Rightarrow> Inl ErrUnverifiable
               | Inr k \<Rightarrow>
                   if expired now (Claims t) then Inl ErrExpired
                   else if sg \<noteq> Sig k a obj then Inl ErrSignatureInvalid
                   else Inr (t\<lparr>Valid := True\<rparr>))))"

subsection \<open>net/http\<close>

text \<open>\<open>time.Time\<close> in seconds relative to the Unix epoch; \<open>time.Time{}\<close> is
  January 1 of year 1.\<close>

definition zeroTime :: int where
  "zeroTime = - 62135596800"

record cookie =
  Name :: string
  Value :: gostring
  Path :: string
  MaxAge :: int
  Expires :: int
  HttpOnly :: bool

type_synonym header = "(string \<times> string list) list"

record request =
  URL_Path :: string
  URL_String :: string
  Cookies :: "(string \<times> gostring) list"
  Header :: header
  Form :: "(string \<times> string list) list"

text \<open>The calls a handler makes on its \<open>http.ResponseWriter\<close>, oldest first.\<close>

datatype effect =
    SetCookie cookie
  | HeaderSet string string
  | HeaderAdd string string
  | WriteHeader nat
  | Write string
  | Error string nat
  | Redirect string nat
  | NotFound

type_synonym response = "effect list"

type_synonym handler = "response \<Rightarrow> request \<Rightarrow> response result"

definition StatusForbidden :: nat where "StatusForbidden = 403"
definition StatusFound :: nat where "StatusFound = 302"
definition StatusInternalServerError :: nat where "StatusInternalServerError = 500"

definition StatusText :: "nat \<Rightarrow> string" where
  "StatusText code =
     (if code = 403 then ''Forbidden'' else if code = 302 then ''Found''
      else if code = 500 then ''Internal Server Error'' else if code = 404 then ''Not Found''
      else [])"

definition HasPrefix :: "string \<Rightarrow> string \<Rightarrow> bool" where
  "HasPrefix s p = (take (length p) s = p)"

text \<open>\<open>r.Cookie(name)\<close>: the first cookie of that name in the request's Cookie header. A
  request cookie carries a name and a value only; the other fields are zero.\<close>

definition Cookie :: "request \<Rightarrow> string \<Rightarrow> cookie option" where
  "Cookie r name =
     (case find (\<lambda>(n, v). n = name) (Cookies r) of
        None \<Rightarrow> None
      | Some (n, v) \<Rightarrow>
          Some \<lparr>Name = n, Value = v, Path = [], MaxAge = 0, Expires = zeroTime, HttpOnly = False\<rparr>)"

text \<open>\<open>url.Values.Get\<close>: the first value of the key, or the empty string.\<close>

definition Form_Get :: "(string \<times> string list) list \<Rightarrow> string \<Rightarrow> string" where
  "Form_Get f k = (case map_of f k of Some (v # vs) \<Rightarrow> v | _ \<Rightarrow> [])"

text \<open>\<open>http.CanonicalHeaderKey\<close>: a key made of header-token bytes only gets its first
  letter and every letter after a hyphen in upper case and the rest in lower case; any
  other key is returned as it is.\<close>

definition lowers :: string where "lowers = ''abcdefghijklmnopqrstuvwxyz''"
definition uppers :: string where "uppers = ''ABCDEFGHIJKLMNOPQRSTUVWXYZ''"
definition digits :: string where "digits = ''0123456789''"

definition validHeaderFieldByte :: "char \<Rightarrow> bool" where
  "validHeaderFieldByte c =
     (c \<in> set lowers \<or> c \<in> set uppers \<or> c \<in> set digits
      \<or> c \<in> set [CHR ''!'', CHR ''#'', CHR ''$'', CHR ''%'', CHR ''&'', CHR 0x27, CHR ''*'',
                  CHR ''+'', CHR ''-'', CHR ''.'', CHR ''^'', CHR ''_'', CHR 0x60, CHR ''|'',
                  CHR ''~''])"

definition toUpper :: "char \<Rightarrow> char" where
  "toUpper c = (case map_of (zip lowers uppers) c of Some u \<Rightarrow> u | None \<Rightarrow> c)"

definition toLower :: "char \<Rightarrow> char" where
  "toLower c = (case map_of (zip uppers lowers) c of Some l \<Rightarrow> l | None \<Rightarrow> c)"

fun canonical :: "bool \<Rightarrow> string \<Rightarrow> string" where
  "canonical upper [] = []"
| "canonical upper (c # cs) =
     (let c' = (if upper then toUpper c else toLower c) in c' # canonical (c' = CHR ''-'') cs)"

definition CanonicalHeaderKey :: "string \<Rightarrow> string" where
  "CanonicalHeaderKey s = (if list_all validHeaderFieldByte s then canonical True s else s)"

text \<open>\<open>Header.Add\<close>: \<open>h[key] = append(h[key], value)\<close> under the canonical key.\<close>

definition Header_Add :: "header \<Rightarrow> string \<Rightarrow> string \<Rightarrow> header" where
  "Header_Add h key v =
     (let k = CanonicalHeaderKey key in
      assign k ((case map_of h k of None \<Rightarrow> [] | Some vs \<Rightarrow> vs) @ [v]) h)"

subsection \<open>The protocol engine (package saml), at its boundary\<close>

record attribute =
  FriendlyName :: string
  Name_attr :: string
  Values :: "string list"

record assertion =
  Attributes :: "attribute list"

record authn_request =
  ID :: string
  Redirect_to :: "string \<Rightarrow> string"

record service_provider =
  Key :: rsa_key
  MetadataURL_Path :: string
  AcsURL_Path :: string
  Metadata :: string
  GetSSOBindingLocation :: "string \<Rightarrow> string"
  MakeAuthenticationRequest :: "string \<Rightarrow> string + authn_request"
  ParseResponse :: "request \<Rightarrow> string list \<Rightarrow> string + assertion"

definition HTTPRedirectBinding :: string where
  "HTTPRedirectBinding = ''urn:oasis:names:tc:SAML:2.0:bindings:HTTP-Redirect''"

text \<open>What the middleware takes from its surroundings: \<open>saml.TimeNow\<close> and
  \<open>jwt.TimeFunc\<close> (one clock, in Unix seconds), \<open>saml.RandReader\<close> (the bytes one
  \<open>Read\<close> delivers, or its error), \<open>saml.MaxIssueDelay\<close> in seconds, and the order
  in which the runtime lets \<open>range\<close> visit the entries of a map, which Go leaves
  unspecified: some rearrangement of the entries.\<close>

record env =
  Now :: int
  RandReader :: "nat \<Rightarrow> string + nat list"
  MaxIssueDelay :: int
  RangeOrder :: "claims \<Rightarrow> claims"

subsection \<open>Middleware\<close>

record middleware =
  ServiceProvider :: service_provider
  AllowIDPInitiated :: bool

definition cookieMaxAge :: int where
  "cookieMaxAge = 3600"

definition cookieName :: string where
  "cookieName = ''token''"

text \<open>\<open>randomBytes\<close>: the slice always has \<open>n\<close> bytes, whatever \<open>Read\<close> filled in.\<close>

definition randomBytes :: "env \<Rightarrow> nat \<Rightarrow> nat list result" where
  "randomBytes e n =
     (case RandReader e n of
        Inl err \<Rightarrow> Panic err
      | Inr bs \<Rightarrow> Done (take n (bs @ replicate n 0)))"

text \<open>\<open>base64.URLEncoding.EncodeToString\<close>\<close>

definition encodeURL :: string where
  "encodeURL = ''ABCDEFGHIJKLMNOPQRSTUVWXYZabcdefghijklmnopqrstuvwxyz0123456789-_''"

definition b64 :: "nat \<Rightarrow> char" where
  "b64 i = encodeURL ! (i mod 64)"

fun EncodeToString :: "nat list \<Rightarrow> string" where
  "EncodeToString (a # b # c # rest) =
     (let n = (a mod 256) * 65536 + (b mod 256) * 256 + c mod 256 in
      [b64 (n div 262144), b64 (n div 4096), b64 (n div 64), b64 n] @ EncodeToString rest)"
| "EncodeToString [a, b] =
     (let n = (a mod 256) * 65536 + (b mod 256) * 256 in
      [b64 (n div 262144), b64 (n div 4096), b64 (n div 64), CHR ''=''])"
| "EncodeToString [a] =
     (let n = (a mod 256) * 65536 in
      [b64 (n div 262144), b64 (n div 4096), CHR ''='', CHR ''=''])"
| "EncodeToString [] = []"

text \<open>The key function handed to \<open>jwt.Parse\<close> at all three call sites: only a method of
  type \<open>*jwt.SigningMethodRSA\<close> is accepted, and the key is the public half of the
  service provider's key.\<close>

definition SigningMethodRSA :: "alg \<Rightarrow> bool" where
  "SigningMethodRSA a = (a = RS256 \<or> a = RS384 \<or> a = RS512)"

definition keyFunc :: "middleware \<Rightarrow> token \<Rightarrow> string + nat" where
  "keyFunc m t =
     (if \<not> SigningMethodRSA (Method t) then Inl ''Unexpected signing method''
      else Inr (Public (Key (ServiceProvider m))))"

text \<open>\<open>IsAuthorized\<close>, lines 287-295: every claim but \<open>exp\<close> must be a
  \<open>[]interface{}\<close> of strings; each string is added to the header of the claim. The
  claims are visited in the order \<open>range\<close> yields them.\<close>

fun add_claim_values :: "string \<Rightarrow> json list \<Rightarrow> header \<Rightarrow> header result" where
  "add_claim_values claimName [] h = Done h"
| "add_claim_values claimName (claimValueStr # rest) h =
     (case claimValueStr of
        JStr s \<Rightarrow> add_claim_values claimName rest (Header_Add h (''X-Saml-'' @ claimName) s)
      | _ \<Rightarrow> Panic ''interface conversion: interface {} is not string'')"

fun add_claims :: "claims \<Rightarrow> header \<Rightarrow> header result" where
  "add_claims [] h = Done h"
| "add_claims ((claimName, claimValue) # rest) h =
     (if claimName = ''exp'' then add_claims rest h
      else case claimValue of
             JArr vs \<Rightarrow>
               (case add_claim_values claimName vs h of
                  Panic p \<Rightarrow> Panic p
                | Done h' \<Rightarrow> add_claims rest h')
           | _ \<Rightarrow> Panic ''interface conversion: interface {} is not []interface {}'')"

definition IsAuthorized :: "middleware \<Rightarrow> env \<Rightarrow> request \<Rightarrow> (bool \<times> request) result" where
  "IsAuthorized m e r =
     (case Cookie r cookieName of
        None \<Rightarrow> Done (False, r)
      | Some cookie \<Rightarrow>
          (case Parse (Now e) (Value cookie) (keyFunc m) of
             Inl err \<Rightarrow> Done (False, r)
           | Inr token \<Rightarrow>
               if \<not> Valid token then Done (False, r)
               else if list_ex (\<lambda>(headerName, vs). HasPrefix headerName ''X-Saml'') (Header r)
               then Panic ''X-Saml-* headers should not exist when this function is called''
               else (case add_claims (RangeOrder e (Claims token)) (Header r) of
                       Panic p \<Rightarrow> Panic p
                     | Done h \<Rightarrow> Done (True, r\<lparr>Header := h\<rparr>))))"

text \<open>\<open>RequireAttribute\<close>: the loop over the header's values serves the wrapped handler at
  the first value equal to the required one and returns.\<close>

fun serve_on_match ::
  "string list \<Rightarrow> string \<Rightarrow> handler \<Rightarrow> response \<Rightarrow> request \<Rightarrow> response result option" where
  "serve_on_match [] v handler w r = None"
| "serve_on_match (actualValue # rest) v handler w r =
     (if actualValue = v then Some (handler w r) else serve_on_match rest v handler w r)"

definition RequireAttribute :: "string \<Rightarrow> string \<Rightarrow> handler \<Rightarrow> handler" where
  "RequireAttribute name v handler w r =
     (case map_of (Header r) (CanonicalHeaderKey (''X-Saml-'' @ name)) of
        Some vs \<Rightarrow>
          (case serve_on_match vs v handler w r of
             Some served \<Rightarrow> served
           | None \<Rightarrow> Done (w @ [Error (StatusText StatusForbidden) StatusForbidden]))
      | None \<Rightarrow> Done (w @ [Error (StatusText StatusForbidden) StatusForbidden]))"

text \<open>\<open>getPossibleRequestIDs\<close>: the loop over \<open>r.Cookies()\<close>, then the empty ID when
  IdP-initiated logins are allowed.\<close>

fun collect_ids :: "middleware \<Rightarrow> env \<Rightarrow> (string \<times> gostring) list \<Rightarrow> string list \<Rightarrow> string list result" where
  "collect_ids m e [] rv = Done rv"
| "collect_ids m e ((name, val) # rest) rv =
     (if \<not> HasPrefix name ''saml_'' \<or> val = Str [] then collect_ids m e rest rv
      else case Parse (Now e) val (keyFunc m) of
             Inl err \<Rightarrow> collect_ids m e rest rv
           | Inr token \<Rightarrow>
               if \<not> Valid token then collect_ids m e rest rv
               else (case map_of (Claims token) ''id'' of
                       Some (JStr s) \<Rightarrow> collect_ids m e rest (rv @ [s])
                     | _ \<Rightarrow> Panic ''interface conversion: interface {} is not string''))"

definition getPossibleRequestIDs :: "middleware \<Rightarrow> env \<Rightarrow> request \<Rightarrow> string list result" where
  "getPossibleRequestIDs m e r =
     (case collect_ids m e (Cookies r) [] of
        Panic p \<Rightarrow> Panic p
      | Done rv \<Rightarrow> Done (if AllowIDPInitiated m then rv @ [''''] else rv))"

text \<open>\<open>Authorize\<close>, lines 191-219: with a RelayState, the state cookie is looked up and
  verified, the redirect target is read from it and the cookie is set again with an empty
  value. The result is the finished 403 response, or the response so far and the target.\<close>

definition resolve_state ::
  "middleware \<Rightarrow> env \<Rightarrow> response \<Rightarrow> request \<Rightarrow> (response + response \<times> string) result" where
  "resolve_state m e w r =
     (if Form_Get (Form r) ''RelayState'' \<noteq> [] then
        (case Cookie r (''saml_'' @ Form_Get (Form r) ''RelayState'') of
           None \<Rightarrow> Done (Inl (w @ [Error (StatusText StatusForbidden) StatusForbidden]))
         | Some stateCookie \<Rightarrow>
             (case Parse (Now e) (Value stateCookie) (keyFunc m) of
                Inl err \<Rightarrow> Done (Inl (w @ [Error (StatusText StatusForbidden) StatusForbidden]))
              | Inr state \<Rightarrow>
                  if \<not> Valid state
                  then Done (Inl (w @ [Error (StatusText StatusForbidden) StatusForbidden]))
                  else (case map_of (Claims state) ''uri'' of
                          Some (JStr redirectURI) \<Rightarrow>
                            Done (Inr (w @ [SetCookie (stateCookie\<lparr>Value := Str [], Expires := zeroTime\<rparr>)],
                                       redirectURI))
                        | _ \<Rightarrow> Panic ''interface conversion: interface {} is not string'')))
      else Done (Inr (w, ''/'')))"

text \<open>Lines 223-233: one claim per attribute, named by the friendly name when there is one,
  holding the attribute's values in their order.\<close>

fun attribute_claims :: "attribute list \<Rightarrow> claims \<Rightarrow> claims" where
  "attribute_claims [] c = c"
| "attribute_claims (attr # rest) c =
     (let valueStrings = Values attr;
          claimName = (if FriendlyName attr = [] then Name_attr attr else FriendlyName attr)
      in attribute_claims rest (assign claimName (JArr (map JStr valueStrings)) c))"

definition session_claims :: "env \<Rightarrow> assertion \<Rightarrow> claims" where
  "session_claims e a =
     assign ''exp'' (JNum (Now e + cookieMaxAge)) (attribute_claims (Attributes a) [])"

definition Authorize :: "middleware \<Rightarrow> env \<Rightarrow> response \<Rightarrow> request \<Rightarrow> assertion \<Rightarrow> response result" where
  "Authorize m e w r a =
     (case resolve_state m e w r of
        Panic p \<Rightarrow> Panic p
      | Done (Inl forbidden) \<Rightarrow> Done forbidden
      | Done (Inr (w', redirectURI)) \<Rightarrow>
          (case SignedString RS256 (session_claims e a) (Key (ServiceProvider m)) of
             Inl err \<Rightarrow> Panic err
           | Inr signedToken \<Rightarrow>
               Done (w' @ [SetCookie \<lparr>Name = cookieName, Value = signedToken, Path = ''/'',
                                      MaxAge = cookieMaxAge, Expires = zeroTime, HttpOnly = False\<rparr>,
                           Redirect redirectURI StatusFound])))"

text \<open>\<open>RequireAccount\<close>\<close>

definition state_claims :: "string \<Rightarrow> string \<Rightarrow> claims" where
  "state_claims requestID uri = assign ''uri'' (JStr uri) (assign ''id'' (JStr requestID) [])"

definition RequireAccount :: "middleware \<Rightarrow> env \<Rightarrow> handler \<Rightarrow> handler" where
  "RequireAccount m e handler w r0 =
     (case IsAuthorized m e r0 of
        Panic p \<Rightarrow> Panic p
      | Done (authorized, r) \<Rightarrow>
          if authorized then handler w r
          else if URL_Path r = AcsURL_Path (ServiceProvider m)
          then Panic (''don'' @ [CHR 0x27] @ ''t wrap Middleware with RequireAccount'')
          else (case MakeAuthenticationRequest (ServiceProvider m)
                       (GetSSOBindingLocation (ServiceProvider m) HTTPRedirectBinding) of
                  Inl err \<Rightarrow> Done (w @ [Error err StatusInternalServerError])
                | Inr req \<Rightarrow>
                    (case randomBytes e 42 of
                       Panic p \<Rightarrow> Panic p
                     | Done bytes \<Rightarrow>
                         (let relayState = EncodeToString bytes in
                          case SignedString RS256 (state_claims (ID req) (URL_String r))
                                 (Key (ServiceProvider m)) of
                            Inl err \<Rightarrow> Done (w @ [Error err StatusInternalServerError])
                          | Inr signedState \<Rightarrow>
                              Done (w @ [SetCookie \<lparr>Name = ''saml_'' @ relayState, Value = signedState,
                                                     Path = AcsURL_Path (ServiceProvider m),
                                                     MaxAge = MaxIssueDelay e, Expires = zeroTime,
                                                     HttpOnly = False\<rparr>,
                                         HeaderAdd ''Location'' (Redirect_to req relayState),
                                         WriteHeader StatusFound])))))"

text \<open>\<open>ServeHTTP\<close>\<close>

definition ServeHTTP :: "middleware \<Rightarrow> env \<Rightarrow> handler" where
  "ServeHTTP m e w r =
     (if URL_Path r = MetadataURL_Path (ServiceProvider m)
      then Done (w @ [HeaderSet ''Content-Type'' ''application/samlmetadata+xml'',
                      Write (Metadata (ServiceProvider m))])
      else if URL_Path r = AcsURL_Path (ServiceProvider m)
      then (case getPossibleRequestIDs m e r of
              Panic p \<Rightarrow> Panic p
            | Done ids \<Rightarrow>
                (case ParseResponse (ServiceProvider m) r ids of
                   Inl err \<Rightarrow> Done (w @ [Error (StatusText StatusForbidden) StatusForbidden])
                 | Inr assertion \<Rightarrow> Authorize m e w r assertion))
      else Done (w @ [NotFound]))"

subsection \<open>The vocabulary of the claims, and sample inputs\<close>

text \<open>\<open>h[key]\<close>: the values stored under a key, none when the key is absent.\<close>

definition Header_Values :: "header \<Rightarrow> string \<Rightarrow> string list" where
  "Header_Values h k = (case map_of h k of None \<Rightarrow> [] | Some vs \<Rightarrow> vs)"

text \<open>The request header a claim name is projected to.\<close>

definition claim_header :: "string \<Rightarrow> string" where
  "claim_header claimName = CanonicalHeaderKey (''X-Saml-'' @ claimName)"

text \<open>The token the codec issues for claims \<open>c\<close> under method \<open>a\<close> with the
  middleware's key.\<close>

definition signed_by :: "middleware \<Rightarrow> alg \<Rightarrow> claims \<Rightarrow> gostring" where
  "signed_by m a obj = Jwt a obj (Sig (Public (Key (ServiceProvider m))) a obj)"

text \<open>A cookie value verifies: it is a token of an RSA method, signed by the configured
  key, and not expired.\<close>

definition verifies :: "middleware \<Rightarrow> env \<Rightarrow> gostring \<Rightarrow> bool" where
  "verifies m e v =
     (case v of
        Str s \<Rightarrow> False
      | Jwt a obj sg \<Rightarrow>
          SigningMethodRSA a \<and> sg = Sig (Public (Key (ServiceProvider m))) a obj
          \<and> \<not> expired (Now e) (Unmarshal obj))"

text \<open>The request ID a token carries: its claim \<open>id\<close>, when that is a string.\<close>

definition requestID_claim :: "gostring \<Rightarrow> string option" where
  "requestID_claim v =
     (case v of
        Str s \<Rightarrow> None
      | Jwt a obj sg \<Rightarrow>
          (case map_of (Unmarshal obj) ''id'' of Some (JStr s) \<Rightarrow> Some s | _ \<Rightarrow> None))"

text \<open>The request IDs of the \<open>saml_\<close> cookies that verify, in the order of the cookies.\<close>

fun valid_request_ids :: "middleware \<Rightarrow> env \<Rightarrow> (string \<times> gostring) list \<Rightarrow> string list" where
  "valid_request_ids m e [] = []"
| "valid_request_ids m e ((name, v) # rest) =
     (if HasPrefix name ''saml_'' \<and> verifies m e v
      then (case requestID_claim v of Some s \<Rightarrow> [s] | None \<Rightarrow> []) else [])
     @ valid_request_ids m e rest"

text \<open>The claim an attribute becomes: its friendly name if it has one, else its name,
  with its values in order.\<close>

definition claim_name :: "attribute \<Rightarrow> string" where
  "claim_name attr = (if FriendlyName attr = [] then Name_attr attr else FriendlyName attr)"

definition attribute_claim :: "attribute \<Rightarrow> string \<times> json" where
  "attribute_claim attr = (claim_name attr, JArr (map JStr (Values attr)))"

definition sample_key :: rsa_key where
  "sample_key = \<lparr>key_id = 1, usable = True\<rparr>"

definition sample_authn_request :: authn_request where
  "sample_authn_request =
     \<lparr>ID = ''id-42'',
      Redirect_to = (\<lambda>relayState. ''https://idp.example/sso?RelayState='' @ relayState)\<rparr>"

definition sample_provider :: service_provider where
  "sample_provider =
     \<lparr>Key = sample_key, MetadataURL_Path = ''/saml/metadata'', AcsURL_Path = ''/saml/acs'',
      Metadata = ''<EntityDescriptor/>'',
      GetSSOBindingLocation = (\<lambda>binding. ''https://idp.example/sso''),
      MakeAuthenticationRequest = (\<lambda>location. Inr sample_authn_request),
      ParseResponse = (\<lambda>r ids. Inl ''no response'')\<rparr>"

definition sample_middleware :: middleware where
  "sample_middleware = \<lparr>ServiceProvider = sample_provider, AllowIDPInitiated = False\<rparr>"

definition sample_env :: env where
  "sample_env =
     \<lparr>Now = 1000, RandReader = (\<lambda>n. Inr (replicate n 7)), MaxIssueDelay = 90,
      RangeOrder = (\<lambda>c. c)\<rparr>"

definition sample_request :: request where
  "sample_request =
     \<lparr>URL_Path = ''/app'', URL_String = ''/app?x=1'', Cookies = [], Header = [], Form = []\<rparr>"

definition sample_app :: handler where
  "sample_app w r = Done (w @ [WriteHeader 200, Write ''ok''])"

text \<open>A middleware whose key cannot sign.\<close>

definition broken_middleware :: middleware where
  "broken_middleware =
     sample_middleware\<lparr>ServiceProvider := sample_provider\<lparr>Key := sample_key\<lparr>usable := False\<rparr>\<rparr>\<rparr>"

definition sample_assertion :: assertion where
  "sample_assertion =
     \<lparr>Attributes =
        [\<lparr>FriendlyName = ''uid'', Name_attr = ''urn:oid:0.9'', Values = [''alice'']\<rparr>,
         \<lparr>FriendlyName = [], Name_attr = ''role'', Values = [''user'', ''admin'']\<rparr>]\<rparr>"

definition sample_session :: gostring where
  "sample_session =
     signed_by sample_middleware RS256
       [(''uid'', JArr [JStr ''alice'']), (''role'', JArr [JStr ''user'', JStr ''admin'']),
        (''exp'', JNum 4600)]"

text \<open>Two attributes whose names differ in case only.\<close>

definition colliding_assertion :: assertion where
  "colliding_assertion =
     \<lparr>Attributes = [\<lparr>FriendlyName = ''uid'', Name_attr = [], Values = [''alice'']\<rparr>,
                    \<lparr>FriendlyName = ''UID'', Name_attr = [], Values = [''bob'']\<rparr>]\<rparr>"

definition colliding_session :: gostring where
  "colliding_session =
     signed_by sample_middleware RS256
       [(''uid'', JArr [JStr ''alice'']), (''UID'', JArr [JStr ''bob'']), (''exp'', JNum 4600)]"

text \<open>The relay state and the state token \<open>RequireAccount\<close> makes for \<open>sample_request\<close>, and
  the request that brings them back to the assertion-consumer endpoint.\<close>

definition sample_relay :: string where
  "sample_relay = EncodeToString (take 42 (replicate 42 7 @ replicate 42 0))"

definition sample_state :: gostring where
  "sample_state = signed_by sample_middleware RS256 (state_claims ''id-42'' ''/app?x=1'')"

definition acs_request :: request where
  "acs_request =
     \<lparr>URL_Path = ''/saml/acs'', URL_String = ''/saml/acs'',
      Cookies = [(''saml_'' @ sample_relay, sample_state)], Header = [],
      Form = [(''RelayState'', [sample_relay])]\<rparr>"

definition later :: env where
  "later = sample_env\<lparr>Now := 1060\<rparr>"

text \<open>Requests whose session cookie is signed by another key, uses HMAC, or is expired, and
  one that carries the session cookie of \<open>sample_assertion\<close>.\<close>

definition uid_claims :: claims where
  "uid_claims = [(''uid'', JArr [JStr ''alice''])]"

definition foreign_key_request :: request where
  "foreign_key_request = sample_request\<lparr>Cookies := [(''token'', Jwt RS256 uid_claims (Sig 2 RS256 uid_claims))]\<rparr>"

definition hmac_request :: request where
  "hmac_request = sample_request\<lparr>Cookies := [(''token'', Jwt HS256 uid_claims (Sig 1 HS256 uid_claims))]\<rparr>"

definition expired_request :: request where
  "expired_request =
     sample_request\<lparr>Cookies := [(''token'', signed_by sample_middleware RS256 [(''uid'', JArr [JStr ''alice'']), (''exp'', JNum 999)])]\<rparr>"

definition session_request :: request where
  "session_request = sample_request\<lparr>Cookies := [(''token'', sample_session)]\<rparr>"

text \<open>The session token in a \<open>saml_\<close> cookie, and a request with two correlation
  cookies, a corrupted one, an empty one and a cookie of another name.\<close>

definition misplaced_session_request :: request where
  "misplaced_session_request = sample_request\<lparr>Cookies := [(''saml_x'', sample_session)]\<rparr>"

definition many_cookies_request :: request where
  "many_cookies_request =
     acs_request\<lparr>Cookies :=
       [(''saml_a'', signed_by sample_middleware RS256 (state_claims ''id-1'' ''/a'')),
        (''theme'', Str ''dark''),
        (''saml_b'', Str ''corrupted''),
        (''saml_c'', signed_by sample_middleware RS256 (state_claims ''id-2'' ''/c'')),
        (''saml_d'', Str [])]\<rparr>"

definition idp_middleware :: middleware where
  "idp_middleware = sample_middleware\<lparr>AllowIDPInitiated := True\<rparr>"

text \<open>A request that brings its own \<open>X-Saml\<close> header and no session cookie.\<close>

definition spoofing_request :: request where
  "spoofing_request = sample_request\<lparr>Header := [(''X-Saml-Uid'', [''admin''])]\<rparr>"

section \<open>Properties\<close>

lemmas sample_defs = sample_key_def sample_provider_def sample_middleware_def sample_env_def
  sample_request_def sample_app_def sample_authn_request_def

lemmas http_defs = Cookie_def Form_Get_def HasPrefix_def StatusText_def StatusForbidden_def
  StatusFound_def StatusInternalServerError_def Header_Values_def

lemmas canon_defs = claim_header_def CanonicalHeaderKey_def validHeaderFieldByte_def lowers_def
  uppers_def digits_def toUpper_def toLower_def Let_def

lemmas jwt_defs = Parse_def SignedString_def keyFunc_def SigningMethodRSA_def expired_def
  Unmarshal_def Public_def

subsection \<open>Maps, headers and the codec\<close>

lemma map_of_assign: "map_of (assign k v m) = (map_of m)(k \<mapsto> v)"
  by (induction m) (auto simp: fun_eq_iff)

lemma keys_assign: "fst ` set (assign k v m) = insert k (fst ` set m)"
  by (induction k v m rule: assign.induct) (simp_all add: insert_commute)

lemma assign_new: "k \<notin> fst ` set m \<Longrightarrow> assign k v m = m @ [(k, v)]"
  by (induction m) auto

lemma distinct_assign: "distinct (map fst m) \<Longrightarrow> distinct (map fst (assign k v m))"
  by (induction m) (auto simp: keys_assign)

lemma filter_assign: "filter (\<lambda>(n, v). n \<noteq> k) (assign k x m) = filter (\<lambda>(n, v). n \<noteq> k) m"
  by (induction m) auto

lemma foldl_assign_distinct:
  "distinct (map fst (acc @ obj)) \<Longrightarrow> foldl (\<lambda>m (k, v). assign k v m) acc obj = acc @ obj"
proof (induction obj arbitrary: acc)
  case Nil
  then show ?case by simp
next
  case (Cons x obj)
  obtain k v where x: "x = (k, v)" by (cases x)
  from Cons.prems have "k \<notin> fst ` set acc" by (auto simp: x)
  then have a: "assign k v acc = acc @ [(k, v)]" by (rule assign_new)
  from Cons.prems have "distinct (map fst ((acc @ [(k, v)]) @ obj))" by (simp add: x)
  from Cons.IH [OF this] show ?case by (simp add: x a)
qed

lemma Unmarshal_distinct: "distinct (map fst obj) \<Longrightarrow> Unmarshal obj = obj"
  using foldl_assign_distinct [of "[]" obj] by (simp add: Unmarshal_def)

lemma Header_Values_Add:
  "Header_Values (Header_Add h key s) k =
     Header_Values h k @ (if k = CanonicalHeaderKey key then [s] else [])"
  by (auto simp: Header_Values_def Header_Add_def map_of_assign Let_def split: option.splits)

lemma keys_Header_Add:
  "fst ` set (Header_Add h key s) = insert (CanonicalHeaderKey key) (fst ` set h)"
  by (simp add: Header_Add_def keys_assign Let_def)

lemma no_reserved_header:
  "\<not> list_ex (\<lambda>(headerName, vs). HasPrefix headerName ''X-Saml'') h \<Longrightarrow> HasPrefix k ''X-Saml'' \<Longrightarrow>
   k \<notin> fst ` set h"
  by (auto simp: list_ex_iff)

lemma Header_Values_absent: "k \<notin> fst ` set h \<Longrightarrow> Header_Values h k = []"
  by (simp add: Header_Values_def map_of_eq_None_iff [symmetric])

lemma canonical_prefix: "HasPrefix (claim_header n) ''X-Saml''"
  by (simp add: canon_defs HasPrefix_def)



lemma Parse_Str [simp]: "Parse now (Str s) kf = Inl ErrMalformed"
  by (simp add: Parse_def)

lemma Parse_Inr_iff:
  "Parse now (Jwt a obj sg) (keyFunc m) = Inr t \<longleftrightarrow>
     SigningMethodRSA a \<and> sg = Sig (Public (Key (ServiceProvider m))) a obj \<and>
     \<not> expired now (Unmarshal obj) \<and> t = \<lparr>Method = a, Claims = Unmarshal obj, Valid = True\<rparr>"
  by (cases a) (auto simp: Parse_def keyFunc_def SigningMethodRSA_def Let_def)

lemma Parse_verifies:
  "Parse (Now e) v (keyFunc m) = Inr t \<Longrightarrow> verifies m e v \<and> Valid t \<and> (\<exists>a obj sg. v = Jwt a obj sg \<and> Claims t = Unmarshal obj)"
  by (cases v) (auto simp: verifies_def Parse_Inr_iff)

lemma not_verifies_Parse:
  "\<not> verifies m e v \<Longrightarrow> \<exists>err. Parse (Now e) v (keyFunc m) = Inl err"
  by (cases "Parse (Now e) v (keyFunc m)") (auto dest: Parse_verifies)

lemma verifies_Parse:
  "verifies m e (Jwt a obj sg) \<Longrightarrow> Parse (Now e) (Jwt a obj sg) (keyFunc m) = Inr \<lparr>Method = a, Claims = Unmarshal obj, Valid = True\<rparr>"
  by (simp add: verifies_def Parse_Inr_iff)

lemma state_claims_list: "state_claims i u = [(''id'', JStr i), (''uri'', JStr u)]"
  by (simp add: state_claims_def)

lemma Parse_state:
  "Parse now (signed_by m RS256 (state_claims i u)) (keyFunc m)
     = Inr \<lparr>Method = RS256, Claims = [(''id'', JStr i), (''uri'', JStr u)], Valid = True\<rparr>"
  by (simp add: signed_by_def Parse_Inr_iff state_claims_list Unmarshal_def expired_def SigningMethodRSA_def)



subsection \<open>The sample inputs\<close>

lemma sample_facts:
  "Key (ServiceProvider sample_middleware) = sample_key" "usable sample_key" "Public sample_key = 1"
  "Now sample_env = 1000" "Form sample_request = []" "Header sample_request = []"
  "Cookies sample_request = []" "URL_Path sample_request = ''/app''"
  "URL_String sample_request = ''/app?x=1''"
  "AcsURL_Path (ServiceProvider sample_middleware) = ''/saml/acs''"
  "MakeAuthenticationRequest (ServiceProvider sample_middleware) loc = Inr sample_authn_request"
  "RandReader sample_env 42 = Inr (replicate 42 7)" "MaxIssueDelay sample_env = 90"
  "ID sample_authn_request = ''id-42''"
  "Redirect_to sample_authn_request rs = ''https://idp.example/sso?RelayState='' @ rs"
  "AllowIDPInitiated sample_middleware = False"
  "RangeOrder sample_env c = c"
  by (simp_all add: sample_defs Public_def)

lemma later_facts: "Now later = 1060" "RangeOrder later c = c"
  by (simp_all add: later_def sample_defs)

lemma broken_facts:
  "Key (ServiceProvider broken_middleware) = sample_key\<lparr>usable := False\<rparr>"
  "AcsURL_Path (ServiceProvider broken_middleware) = ''/saml/acs''"
  "MakeAuthenticationRequest (ServiceProvider broken_middleware) loc = Inr sample_authn_request"
  by (simp_all add: broken_middleware_def sample_defs)

lemma sample_unauthorized:
  "IsAuthorized m e sample_request = Done (False, sample_request)"
  by (simp add: IsAuthorized_def Cookie_def sample_request_def)

lemma sample_session_claims:
  "session_claims sample_env sample_assertion =
     [(''uid'', JArr [JStr ''alice'']), (''role'', JArr [JStr ''user'', JStr ''admin'']), (''exp'', JNum 4600)]"
  by (simp add: session_claims_def sample_assertion_def sample_facts cookieMaxAge_def)

lemma sample_Authorize:
  "Authorize sample_middleware sample_env [] sample_request sample_assertion
     = Done [SetCookie \<lparr>Name = ''token'', Value = sample_session,
                        Path = ''/'', MaxAge = 3600, Expires = zeroTime, HttpOnly = False\<rparr>,
             Redirect ''/'' 302]"
  by (simp add: Authorize_def resolve_state_def sample_session_claims sample_facts Form_Get_def
      SignedString_def sample_session_def signed_by_def cookieName_def cookieMaxAge_def StatusFound_def)

lemma sample_headers:
  "claim_header ''uid'' = ''X-Saml-Uid''" "claim_header ''role'' = ''X-Saml-Role''"
  "claim_header ''UID'' = ''X-Saml-Uid''"
  by (simp_all add: canon_defs)

lemma session_request_authorized:
  "IsAuthorized sample_middleware sample_env session_request
     = Done (True, session_request\<lparr>Header := [(''X-Saml-Uid'', [''alice'']), (''X-Saml-Role'', [''user'', ''admin''])]\<rparr>)"
proof -
  have p: "Parse 1000 sample_session (keyFunc sample_middleware)
     = Inr \<lparr>Method = RS256, Claims = [(''uid'', JArr [JStr ''alice'']), (''role'', JArr [JStr ''user'', JStr ''admin'']), (''exp'', JNum 4600)], Valid = True\<rparr>"
    by (simp add: sample_session_def signed_by_def Parse_Inr_iff SigningMethodRSA_def Unmarshal_def expired_def)
  have h: "CanonicalHeaderKey ''X-Saml-uid'' = ''X-Saml-Uid''" "CanonicalHeaderKey ''X-Saml-role'' = ''X-Saml-Role''"
    using sample_headers by (simp_all add: claim_header_def)
  show ?thesis
    using h by (simp add: IsAuthorized_def session_request_def Cookie_def cookieName_def sample_facts p Header_Add_def)
qed



subsection \<open>Attribute gate\<close>

lemma serve_on_match_iff:
  "serve_on_match vs v handler w r = (if v \<in> set vs then Some (handler w r) else None)"
  by (induction vs) auto

text \<open>C6: the handler made by \<open>RequireAttribute name v\<close> serves the wrapped handler exactly
  when \<open>v\<close> is, as a whole string, one of the values of the projected attribute \<open>name\<close>;
  otherwise it answers 403 Forbidden.\<close>

theorem RequireAttribute_exact:
  "RequireAttribute name v handler w r =
     (if v \<in> set (Header_Values (Header r) (claim_header name)) then handler w r
      else Done (w @ [Error ''Forbidden'' 403]))"
  by (simp add: RequireAttribute_def serve_on_match_iff http_defs claim_header_def
      split: option.splits)

text \<open>The claim's two examples, and a proper prefix of a value, which does not match. The
  header is the one \<open>IsAuthorized\<close> projects from the claim \<open>role\<close>.\<close>

theorem RequireAttribute_exact_witness:
  "add_claims [(''role'', JArr [JStr ''user'', JStr ''admin''])] []
     = Done [(''X-Saml-Role'', [''user'', ''admin''])]
   \<and> RequireAttribute ''role'' ''admin'' sample_app []
        (sample_request\<lparr>Header := [(''X-Saml-Role'', [''user'', ''admin''])]\<rparr>)
       = Done [WriteHeader 200, Write ''ok'']
   \<and> RequireAttribute ''role'' ''admin'' sample_app []
        (sample_request\<lparr>Header := [(''X-Saml-Role'', [''user''])]\<rparr>)
       = Done [Error ''Forbidden'' 403]
   \<and> RequireAttribute ''role'' ''adm'' sample_app []
        (sample_request\<lparr>Header := [(''X-Saml-Role'', [''user'', ''admin''])]\<rparr>)
       = Done [Error ''Forbidden'' 403]"
  using
    RequireAttribute_exact [of "''role''" "''admin''" sample_app "[]"
      "sample_request\<lparr>Header := [(''X-Saml-Role'', [''user'', ''admin''])]\<rparr>"]
    RequireAttribute_exact [of "''role''" "''admin''" sample_app "[]"
      "sample_request\<lparr>Header := [(''X-Saml-Role'', [''user''])]\<rparr>"]
    RequireAttribute_exact [of "''role''" "''adm''" sample_app "[]"
      "sample_request\<lparr>Header := [(''X-Saml-Role'', [''user'', ''admin''])]\<rparr>"]
  by (simp add: sample_defs http_defs canon_defs Header_Add_def)

subsection \<open>Dispatcher\<close>

text \<open>C8, as the code has it: a request whose path is neither the metadata path nor the
  assertion-consumer path is answered by \<open>http.NotFoundHandler\<close>; \<open>ServeHTTP\<close> hands it
  to no other handler.\<close>

theorem ServeHTTP_other_path:
  "URL_Path r \<noteq> MetadataURL_Path (ServiceProvider m) \<Longrightarrow>
   URL_Path r \<noteq> AcsURL_Path (ServiceProvider m) \<Longrightarrow>
   ServeHTTP m e w r = Done (w @ [NotFound])"
  by (simp add: ServeHTTP_def)

theorem ServeHTTP_other_path_witness:
  "URL_Path sample_request \<noteq> MetadataURL_Path (ServiceProvider sample_middleware)
   \<and> URL_Path sample_request \<noteq> AcsURL_Path (ServiceProvider sample_middleware)
   \<and> ServeHTTP sample_middleware sample_env [] sample_request = Done [NotFound]"
proof -
  have a: "URL_Path sample_request \<noteq> MetadataURL_Path (ServiceProvider sample_middleware)"
    by (simp add: sample_defs)
  have b: "URL_Path sample_request \<noteq> AcsURL_Path (ServiceProvider sample_middleware)"
    by (simp add: sample_defs)
  show ?thesis using a b ServeHTTP_other_path [OF a b, of sample_env "[]"] by simp
qed

text \<open>There is no pass-through: on \<open>/app\<close> the dispatcher answers 404 itself, which is
  not what the application's handler answers.\<close>

theorem ServeHTTP_no_pass_through:
  "ServeHTTP sample_middleware sample_env [] sample_request = Done [NotFound] \<and>
   ServeHTTP sample_middleware sample_env [] sample_request \<noteq> sample_app [] sample_request"
  by (simp add: ServeHTTP_def sample_defs)

subsection \<open>Signing failures\<close>

text \<open>C7, as the code has it: when signing the session token fails, \<open>Authorize\<close> panics
  with the signing error; when signing the correlation token fails, \<open>RequireAccount\<close>
  answers 500 Internal Server Error with the error's text and returns.\<close>

theorem signing_failure:
  "(SignedString RS256 (session_claims e a) (Key (ServiceProvider m)) = Inl err \<and>
    resolve_state m e w r = Done (Inr (w', redirectURI))
      \<longrightarrow> Authorize m e w r a = Panic err)
   \<and> (SignedString RS256 (state_claims (ID req) (URL_String r)) (Key (ServiceProvider m)) = Inl err \<and>
      IsAuthorized m e r = Done (False, r) \<and> URL_Path r \<noteq> AcsURL_Path (ServiceProvider m) \<and>
      MakeAuthenticationRequest (ServiceProvider m)
        (GetSSOBindingLocation (ServiceProvider m) HTTPRedirectBinding) = Inr req \<and>
      randomBytes e 42 = Done bytes
      \<longrightarrow> RequireAccount m e handler w r = Done (w @ [Error err 500]))"
  by (simp add: Authorize_def RequireAccount_def StatusInternalServerError_def)

theorem signing_failure_witness:
  "SignedString RS256 (session_claims sample_env sample_assertion)
      (Key (ServiceProvider broken_middleware)) = Inl ''crypto/rsa: signing failed''
   \<and> resolve_state broken_middleware sample_env [] sample_request = Done (Inr ([], ''/''))
   \<and> Authorize broken_middleware sample_env [] sample_request sample_assertion
       = Panic ''crypto/rsa: signing failed''
   \<and> RequireAccount broken_middleware sample_env sample_app [] sample_request
       = Done [Error ''crypto/rsa: signing failed'' 500]"
proof -
  have s1: "SignedString RS256 (session_claims sample_env sample_assertion)
      (Key (ServiceProvider broken_middleware)) = Inl ''crypto/rsa: signing failed''"
    by (simp add: SignedString_def sample_facts broken_facts)
  have rs: "resolve_state broken_middleware sample_env [] sample_request = Done (Inr ([], ''/''))"
    by (simp add: resolve_state_def sample_facts Form_Get_def)
  have s2: "SignedString RS256 (state_claims (ID sample_authn_request) (URL_String sample_request))
      (Key (ServiceProvider broken_middleware)) = Inl ''crypto/rsa: signing failed''"
    by (simp add: SignedString_def sample_facts broken_facts)
  have pre: "SignedString RS256 (state_claims (ID sample_authn_request) (URL_String sample_request))
      (Key (ServiceProvider broken_middleware)) = Inl ''crypto/rsa: signing failed'' \<and>
      IsAuthorized broken_middleware sample_env sample_request = Done (False, sample_request) \<and>
      URL_Path sample_request \<noteq> AcsURL_Path (ServiceProvider broken_middleware) \<and>
      MakeAuthenticationRequest (ServiceProvider broken_middleware)
        (GetSSOBindingLocation (ServiceProvider broken_middleware) HTTPRedirectBinding)
          = Inr sample_authn_request \<and>
      randomBytes sample_env 42 = Done (take 42 (replicate 42 7 @ replicate 42 0))"
    using s2 sample_unauthorized by (simp add: sample_facts broken_facts randomBytes_def)
  note T = signing_failure [where m = broken_middleware and e = sample_env and r = sample_request
      and w = "[]" and a = sample_assertion and err = "''crypto/rsa: signing failed''"
      and w' = "[]" and redirectURI = "''/''" and req = sample_authn_request
      and handler = sample_app and bytes = "take 42 (replicate 42 7 @ replicate 42 0)"]
  from T [THEN conjunct1, rule_format, OF conjI [OF s1 rs]]
  have 1: "Authorize broken_middleware sample_env [] sample_request sample_assertion
       = Panic ''crypto/rsa: signing failed''" .
  from T [THEN conjunct2, rule_format, OF pre]
  have 2: "RequireAccount broken_middleware sample_env sample_app [] sample_request
       = Done [Error ''crypto/rsa: signing failed'' 500]" by simp
  from s1 rs 1 2 show ?thesis by simp
qed

text \<open>A signing failure in \<open>RequireAccount\<close> is an ordinary error response, not a panic.\<close>

theorem signing_failure_answered:
  "SignedString RS256 (state_claims ''id-42'' (URL_String sample_request))
      (Key (ServiceProvider broken_middleware)) = Inl ''crypto/rsa: signing failed''
   \<and> RequireAccount broken_middleware sample_env sample_app [] sample_request
      = Done [Error ''crypto/rsa: signing failed'' 500]"
  by (simp add: RequireAccount_def sample_unauthorized randomBytes_def SignedString_def
      sample_facts broken_facts StatusInternalServerError_def)

subsection \<open>Assertions without a relay state\<close>

text \<open>C10: when the RelayState form field is empty and the key signs, \<open>Authorize\<close> sets the
  session cookie and redirects to \<open>/\<close>, whatever cookies the request carries and whether
  or not IdP-initiated logins are allowed; no cookie is looked up or verified.\<close>

theorem Authorize_without_RelayState:
  "Form_Get (Form r) ''RelayState'' = [] \<Longrightarrow> usable (Key (ServiceProvider m)) \<Longrightarrow>
   Authorize (m\<lparr>AllowIDPInitiated := allow\<rparr>) e w (r\<lparr>Cookies := cs\<rparr>) a =
     Done (w @ [SetCookie \<lparr>Name = ''token'', Value = signed_by m RS256 (session_claims e a),
                          Path = ''/'', MaxAge = 3600, Expires = zeroTime, HttpOnly = False\<rparr>,
                Redirect ''/'' 302])"
  by (simp add: Authorize_def resolve_state_def SignedString_def signed_by_def cookieName_def
      cookieMaxAge_def StatusFound_def)

theorem Authorize_without_RelayState_witness:
  "Form_Get (Form sample_request) ''RelayState'' = []
   \<and> usable (Key (ServiceProvider sample_middleware))
   \<and> Authorize (sample_middleware\<lparr>AllowIDPInitiated := True\<rparr>) sample_env []
        (sample_request\<lparr>Cookies := [(''saml_'' @ sample_relay, Str ''corrupted'')]\<rparr>) sample_assertion
       = Done [SetCookie \<lparr>Name = ''token'', Value = sample_session,
                          Path = ''/'', MaxAge = 3600, Expires = zeroTime, HttpOnly = False\<rparr>,
               Redirect ''/'' 302]
   \<and> Authorize (sample_middleware\<lparr>AllowIDPInitiated := False\<rparr>) sample_env []
        (sample_request\<lparr>Cookies := []\<rparr>) sample_assertion
       = Done [SetCookie \<lparr>Name = ''token'', Value = sample_session,
                          Path = ''/'', MaxAge = 3600, Expires = zeroTime, HttpOnly = False\<rparr>,
               Redirect ''/'' 302]"
proof -
  have f: "Form_Get (Form sample_request) ''RelayState'' = []"
    by (simp add: Form_Get_def sample_facts)
  have k: "usable (Key (ServiceProvider sample_middleware))" by (simp add: sample_facts)
  have s: "signed_by sample_middleware RS256 (session_claims sample_env sample_assertion)
             = sample_session"
    by (simp add: sample_session_claims sample_session_def)
  from Authorize_without_RelayState [OF f k, of True sample_env "[]" _ sample_assertion]
    Authorize_without_RelayState [OF f k, of False sample_env "[]" _ sample_assertion]
  show ?thesis using f k by (simp add: s)
qed

subsection \<open>Session validation\<close>

text \<open>C2: \<open>IsAuthorized\<close> returns false whenever the session cookie's token carries a
  signature other than the configured key's over its algorithm and claims, names an
  algorithm outside the RSA family, or carries a numeric expiry in the past; and it returns
  true only for a token of an RSA method, signed by the configured key, whose expiry, if it
  has one, is not in the past.\<close>

theorem IsAuthorized_rejects:
  "(Cookie r cookieName = Some c \<and> Value c = Jwt a obj sg \<and>
      (sg \<noteq> Sig (Public (Key (ServiceProvider m))) a obj \<or> \<not> SigningMethodRSA a \<or>
       (\<exists>x. map_of (Unmarshal obj) ''exp'' = Some (JNum x) \<and> x < Now e))
     \<longrightarrow> IsAuthorized m e r = Done (False, r))
   \<and> (IsAuthorized m e r = Done (True, r')
     \<longrightarrow> (\<exists>c a obj. Cookie r cookieName = Some c \<and>
            Value c = Jwt a obj (Sig (Public (Key (ServiceProvider m))) a obj) \<and>
            SigningMethodRSA a \<and>
            (\<forall>x. map_of (Unmarshal obj) ''exp'' = Some (JNum x) \<longrightarrow> Now e \<le> x)))"
proof (intro conjI impI)
  assume h: "Cookie r cookieName = Some c \<and> Value c = Jwt a obj sg \<and>
      (sg \<noteq> Sig (Public (Key (ServiceProvider m))) a obj \<or> \<not> SigningMethodRSA a \<or>
       (\<exists>x. map_of (Unmarshal obj) ''exp'' = Some (JNum x) \<and> x < Now e))"
  then have "\<not> verifies m e (Value c)"
    by (auto simp: verifies_def expired_def)
  then obtain err where "Parse (Now e) (Value c) (keyFunc m) = Inl err"
    using not_verifies_Parse by blast
  with h show "IsAuthorized m e r = Done (False, r)"
    by (simp add: IsAuthorized_def)
next
  assume t: "IsAuthorized m e r = Done (True, r')"
  then obtain c where c: "Cookie r cookieName = Some c"
    by (cases "Cookie r cookieName") (auto simp: IsAuthorized_def)
  with t obtain tk where p: "Parse (Now e) (Value c) (keyFunc m) = Inr tk"
    by (cases "Parse (Now e) (Value c) (keyFunc m)") (auto simp: IsAuthorized_def)
  then obtain a obj sg where v: "Value c = Jwt a obj sg" and ver: "verifies m e (Value c)"
    using Parse_verifies by blast
  from ver v have "sg = Sig (Public (Key (ServiceProvider m))) a obj" "SigningMethodRSA a"
    "\<forall>x. map_of (Unmarshal obj) ''exp'' = Some (JNum x) \<longrightarrow> Now e \<le> x"
    by (auto simp: verifies_def expired_def)
  with c v show "\<exists>c a obj. Cookie r cookieName = Some c \<and>
            Value c = Jwt a obj (Sig (Public (Key (ServiceProvider m))) a obj) \<and>
            SigningMethodRSA a \<and>
            (\<forall>x. map_of (Unmarshal obj) ''exp'' = Some (JNum x) \<longrightarrow> Now e \<le> x)"
    by blast
qed

theorem IsAuthorized_rejects_witness:
  "IsAuthorized sample_middleware sample_env foreign_key_request = Done (False, foreign_key_request)
   \<and> IsAuthorized sample_middleware sample_env hmac_request = Done (False, hmac_request)
   \<and> IsAuthorized sample_middleware sample_env expired_request = Done (False, expired_request)
   \<and> IsAuthorized sample_middleware sample_env session_request
       = Done (True, session_request\<lparr>Header := [(''X-Saml-Uid'', [''alice'']), (''X-Saml-Role'', [''user'', ''admin''])]\<rparr>)
   \<and> (\<exists>c a obj. Cookie session_request cookieName = Some c \<and>
          Value c = Jwt a obj (Sig (Public (Key (ServiceProvider sample_middleware))) a obj) \<and>
          SigningMethodRSA a \<and>
          (\<forall>x. map_of (Unmarshal obj) ''exp'' = Some (JNum x) \<longrightarrow> Now sample_env \<le> x))"
proof -
  have 1: "IsAuthorized sample_middleware sample_env foreign_key_request = Done (False, foreign_key_request)"
    using IsAuthorized_rejects [where r = foreign_key_request and m = sample_middleware and e = sample_env
        and c = "\<lparr>Name = ''token'', Value = Jwt RS256 uid_claims (Sig 2 RS256 uid_claims), Path = [], MaxAge = 0, Expires = zeroTime, HttpOnly = False\<rparr>"
        and a = RS256 and obj = uid_claims and sg = "Sig 2 RS256 uid_claims"]
    by (simp add: foreign_key_request_def Cookie_def cookieName_def sample_facts)
  have 2: "IsAuthorized sample_middleware sample_env hmac_request = Done (False, hmac_request)"
    using IsAuthorized_rejects [where r = hmac_request and m = sample_middleware and e = sample_env
        and c = "\<lparr>Name = ''token'', Value = Jwt HS256 uid_claims (Sig 1 HS256 uid_claims), Path = [], MaxAge = 0, Expires = zeroTime, HttpOnly = False\<rparr>"
        and a = HS256 and obj = uid_claims and sg = "Sig 1 HS256 uid_claims"]
    by (simp add: hmac_request_def Cookie_def cookieName_def SigningMethodRSA_def)
  have 3: "IsAuthorized sample_middleware sample_env expired_request = Done (False, expired_request)"
    using IsAuthorized_rejects [where r = expired_request and m = sample_middleware and e = sample_env
        and c = "\<lparr>Name = ''token'', Value = signed_by sample_middleware RS256 [(''uid'', JArr [JStr ''alice'']), (''exp'', JNum 999)], Path = [], MaxAge = 0, Expires = zeroTime, HttpOnly = False\<rparr>"
        and a = RS256 and obj = "[(''uid'', JArr [JStr ''alice'']), (''exp'', JNum 999)]"
        and sg = "Sig (Public (Key (ServiceProvider sample_middleware))) RS256 [(''uid'', JArr [JStr ''alice'']), (''exp'', JNum 999)]"]
    by (simp add: expired_request_def Cookie_def cookieName_def signed_by_def Unmarshal_def sample_facts)
  note 4 = session_request_authorized
  from IsAuthorized_rejects [where r = session_request and m = sample_middleware and e = sample_env
        and r' = "session_request\<lparr>Header := [(''X-Saml-Uid'', [''alice'']), (''X-Saml-Role'', [''user'', ''admin''])]\<rparr>"] 4
  have 5: "\<exists>c a obj. Cookie session_request cookieName = Some c \<and>
          Value c = Jwt a obj (Sig (Public (Key (ServiceProvider sample_middleware))) a obj) \<and>
          SigningMethodRSA a \<and>
          (\<forall>x. map_of (Unmarshal obj) ''exp'' = Some (JNum x) \<longrightarrow> Now sample_env \<le> x)"
    by blast
  from 1 2 3 4 5 show ?thesis by blast
qed

lemma add_claim_values_panics:
  "\<exists>x \<in> set vs. \<forall>s. x \<noteq> JStr s \<Longrightarrow> \<exists>p. add_claim_values n vs h = Panic p"
proof (induction vs arbitrary: h)
  case Nil
  then show ?case by simp
next
  case (Cons v vs)
  show ?case
  proof (cases "\<exists>s. v = JStr s")
    case True
    then obtain s where s: "v = JStr s" by blast
    with Cons.prems have "\<exists>x \<in> set vs. \<forall>s. x \<noteq> JStr s" by auto
    from Cons.IH [OF this] show ?thesis by (simp add: s)
  next
    case False
    then show ?thesis by (cases v) auto
  qed
qed

lemma add_claims_panics:
  assumes "cl \<noteq> []"
    and "\<forall>(n, v) \<in> set cl. n \<noteq> ''exp'' \<and> (\<forall>vs. v = JArr vs \<longrightarrow> (\<exists>x \<in> set vs. \<forall>s. x \<noteq> JStr s))"
  shows "\<exists>p. add_claims cl h = Panic p"
proof -
  from assms(1) obtain n v rest where cl: "cl = (n, v) # rest" by (cases cl) auto
  with assms(2) have n: "n \<noteq> ''exp''"
    and v: "\<forall>vs. v = JArr vs \<longrightarrow> (\<exists>x \<in> set vs. \<forall>s. x \<noteq> JStr s)" by auto
  show ?thesis
  proof (cases v)
    case (JArr vs)
    with v have "\<exists>x \<in> set vs. \<forall>s. x \<noteq> JStr s" by simp
    from add_claim_values_panics [OF this] obtain p where "add_claim_values n vs h = Panic p"
      by blast
    with n JArr show ?thesis by (simp add: cl)
  qed (simp_all add: cl n)
qed

lemma IsAuthorized_panics:
  assumes order: "mset (RangeOrder e cl) = mset cl"
    and parse: "Cookie r cookieName = Some c"
      "Parse (Now e) (Value c) (keyFunc m) = Inr \<lparr>Method = a, Claims = cl, Valid = True\<rparr>"
    and shape: "cl \<noteq> []"
      "\<forall>(n, v) \<in> set cl. n \<noteq> ''exp'' \<and> (\<forall>vs. v = JArr vs \<longrightarrow> (\<exists>x \<in> set vs. \<forall>s. x \<noteq> JStr s))"
  shows "\<exists>p. IsAuthorized m e r = Panic p"
proof -
  from order have "set (RangeOrder e cl) = set cl" by (rule mset_eq_setD)
  moreover from order shape(1) have "RangeOrder e cl \<noteq> []" by auto
  ultimately have "\<exists>p. add_claims (RangeOrder e cl) (Header r) = Panic p"
    using shape(2) add_claims_panics by simp
  then show ?thesis using parse by (auto simp: IsAuthorized_def)
qed

text \<open>C9: a verified signature does not make the claims well shaped. Whatever order
  \<open>range\<close> takes, a correlation token (its claims \<open>id\<close> and \<open>uri\<close> are strings, not
  sequences) or a token with a sequence holding a number, presented as the session cookie,
  makes \<open>IsAuthorized\<close> panic; a token without a claim \<open>id\<close>, or with a numeric one,
  presented in a \<open>saml_\<close> cookie, makes \<open>getPossibleRequestIDs\<close> panic. All of them
  verify under the configured key.\<close>

theorem verified_claims_unchecked:
  assumes order: "\<And>c. mset (RangeOrder e c) = mset c"
  shows "Parse (Now e) (signed_by m RS256 (state_claims i u)) (keyFunc m)
      = Inr \<lparr>Method = RS256, Claims = state_claims i u, Valid = True\<rparr>
   \<and> (\<exists>p. IsAuthorized m e (r\<lparr>Cookies := (cookieName, signed_by m RS256 (state_claims i u)) # cs\<rparr>) = Panic p)
   \<and> Parse (Now e) (signed_by m RS256 [(''uid'', JArr [JStr ''alice'', JNum 7])]) (keyFunc m)
      = Inr \<lparr>Method = RS256, Claims = [(''uid'', JArr [JStr ''alice'', JNum 7])], Valid = True\<rparr>
   \<and> (\<exists>p. IsAuthorized m e (r\<lparr>Cookies := (cookieName, signed_by m RS256 [(''uid'', JArr [JStr ''alice'', JNum 7])]) # cs\<rparr>) = Panic p)
   \<and> Parse (Now e) (signed_by m RS256 [(''uid'', JArr [JStr ''alice''])]) (keyFunc m)
      = Inr \<lparr>Method = RS256, Claims = [(''uid'', JArr [JStr ''alice''])], Valid = True\<rparr>
   \<and> (\<exists>p. getPossibleRequestIDs m e (r\<lparr>Cookies := (''saml_x'', signed_by m RS256 [(''uid'', JArr [JStr ''alice''])]) # cs\<rparr>) = Panic p)
   \<and> Parse (Now e) (signed_by m RS256 [(''id'', JNum 7)]) (keyFunc m)
      = Inr \<lparr>Method = RS256, Claims = [(''id'', JNum 7)], Valid = True\<rparr>
   \<and> (\<exists>p. getPossibleRequestIDs m e (r\<lparr>Cookies := (''saml_x'', signed_by m RS256 [(''id'', JNum 7)]) # cs\<rparr>) = Panic p)"
proof -
  have p1: "Parse (Now e) (signed_by m RS256 (state_claims i u)) (keyFunc m)
      = Inr \<lparr>Method = RS256, Claims = state_claims i u, Valid = True\<rparr>"
    using Parse_state [of "Now e" m i u] by (simp add: state_claims_list)
  have p2: "Parse (Now e) (signed_by m RS256 [(''uid'', JArr [JStr ''alice'', JNum 7])]) (keyFunc m)
      = Inr \<lparr>Method = RS256, Claims = [(''uid'', JArr [JStr ''alice'', JNum 7])], Valid = True\<rparr>"
    by (simp add: signed_by_def Parse_Inr_iff SigningMethodRSA_def Unmarshal_def expired_def)
  have p3: "Parse (Now e) (signed_by m RS256 [(''uid'', JArr [JStr ''alice''])]) (keyFunc m)
      = Inr \<lparr>Method = RS256, Claims = [(''uid'', JArr [JStr ''alice''])], Valid = True\<rparr>"
    by (simp add: signed_by_def Parse_Inr_iff SigningMethodRSA_def Unmarshal_def expired_def)
  have p4: "Parse (Now e) (signed_by m RS256 [(''id'', JNum 7)]) (keyFunc m)
      = Inr \<lparr>Method = RS256, Claims = [(''id'', JNum 7)], Valid = True\<rparr>"
    by (simp add: signed_by_def Parse_Inr_iff SigningMethodRSA_def Unmarshal_def expired_def)
  have c: "Cookie (r\<lparr>Cookies := (cookieName, v) # cs\<rparr>) cookieName
             = Some \<lparr>Name = cookieName, Value = v, Path = [], MaxAge = 0, Expires = zeroTime,
                     HttpOnly = False\<rparr>" for v
    by (simp add: Cookie_def)
  have a1: "\<exists>p. IsAuthorized m e (r\<lparr>Cookies := (cookieName, signed_by m RS256 (state_claims i u)) # cs\<rparr>) = Panic p"
    by (rule IsAuthorized_panics [OF order c, where a = RS256 and cl = "state_claims i u"])
      (simp_all add: p1, simp_all add: state_claims_list)
  have a2: "\<exists>p. IsAuthorized m e (r\<lparr>Cookies := (cookieName, signed_by m RS256 [(''uid'', JArr [JStr ''alice'', JNum 7])]) # cs\<rparr>) = Panic p"
    by (rule IsAuthorized_panics [OF order c, where a = RS256
          and cl = "[(''uid'', JArr [JStr ''alice'', JNum 7])]"])
      (simp_all add: p2)
  have s: "signed_by m RS256 cl \<noteq> Str []" for cl by (simp add: signed_by_def)
  have g3: "\<exists>p. getPossibleRequestIDs m e (r\<lparr>Cookies := (''saml_x'', signed_by m RS256 [(''uid'', JArr [JStr ''alice''])]) # cs\<rparr>) = Panic p"
    by (simp add: getPossibleRequestIDs_def HasPrefix_def s p3)
  have g4: "\<exists>p. getPossibleRequestIDs m e (r\<lparr>Cookies := (''saml_x'', signed_by m RS256 [(''id'', JNum 7)]) # cs\<rparr>) = Panic p"
    by (simp add: getPossibleRequestIDs_def HasPrefix_def s p4)
  from p1 a1 p2 a2 p3 g3 p4 g4 show ?thesis by blast
qed

theorem verified_claims_unchecked_witness:
  "mset (RangeOrder sample_env [(''id'', JStr ''id-42''), (''uri'', JStr ''/app?x=1'')])
     = mset [(''id'', JStr ''id-42''), (''uri'', JStr ''/app?x=1'')]
   \<and> Parse (Now sample_env) sample_state (keyFunc sample_middleware)
      = Inr \<lparr>Method = RS256, Claims = state_claims ''id-42'' ''/app?x=1'', Valid = True\<rparr>
   \<and> (\<exists>p. IsAuthorized sample_middleware sample_env
             (sample_request\<lparr>Cookies := [(cookieName, sample_state)]\<rparr>) = Panic p)
   \<and> (\<exists>p. getPossibleRequestIDs sample_middleware sample_env
             (sample_request\<lparr>Cookies := [(''saml_x'', signed_by sample_middleware RS256
                                                         [(''id'', JNum 7)])]\<rparr>) = Panic p)"
proof -
  have order: "mset (RangeOrder sample_env c) = mset c" for c
    by (simp add: sample_facts)
  from verified_claims_unchecked [OF order, where m = sample_middleware
      and i = "''id-42''" and u = "''/app?x=1''" and r = sample_request and cs = "[]"]
  show ?thesis using order by (simp add: sample_state_def)
qed

text \<open>C5: a request that carries an \<open>X-Saml\<close> header and no session cookie is not
  rejected with a panic: \<open>IsAuthorized\<close> returns false and leaves the header in place.
  With a valid session cookie the same header makes it panic.\<close>

theorem IsAuthorized_keeps_reserved_header:
  "IsAuthorized sample_middleware sample_env spoofing_request = Done (False, spoofing_request)
   \<and> IsAuthorized sample_middleware sample_env
        (spoofing_request\<lparr>Cookies := [(''token'', sample_session)]\<rparr>)
       = Panic ''X-Saml-* headers should not exist when this function is called''"
proof -
  have p: "Parse 1000 sample_session (keyFunc sample_middleware)
     = Inr \<lparr>Method = RS256,
            Claims = [(''uid'', JArr [JStr ''alice'']),
                      (''role'', JArr [JStr ''user'', JStr ''admin'']), (''exp'', JNum 4600)],
            Valid = True\<rparr>"
    by (simp add: sample_session_def signed_by_def Parse_Inr_iff SigningMethodRSA_def
        Unmarshal_def expired_def)
  have 1: "IsAuthorized sample_middleware sample_env spoofing_request
             = Done (False, spoofing_request)"
    by (simp add: IsAuthorized_def spoofing_request_def Cookie_def sample_facts)
  have 2: "IsAuthorized sample_middleware sample_env
        (spoofing_request\<lparr>Cookies := [(''token'', sample_session)]\<rparr>)
       = Panic ''X-Saml-* headers should not exist when this function is called''"
    by (simp add: IsAuthorized_def spoofing_request_def Cookie_def cookieName_def sample_facts p
        HasPrefix_def)
  from 1 2 show ?thesis by simp
qed

subsection \<open>Request-ID registry\<close>

lemma collect_ids_valid:
  "\<forall>(name, v) \<in> set cs. HasPrefix name ''saml_'' \<and> verifies m e v \<longrightarrow> requestID_claim v \<noteq> None \<Longrightarrow>
   collect_ids m e cs rv = Done (rv @ valid_request_ids m e cs)"
proof (induction cs arbitrary: rv)
  case Nil
  then show ?case by simp
next
  case (Cons c cs)
  obtain name v where c: "c = (name, v)" by (cases c)
  have IH: "\<And>rv. collect_ids m e cs rv = Done (rv @ valid_request_ids m e cs)"
    using Cons by simp
  show ?case
  proof (cases "HasPrefix name ''saml_'' \<and> verifies m e v")
    case False
    then show ?thesis
    proof (cases "HasPrefix name ''saml_''")
      case True
      with False have nv: "\<not> verifies m e v" by simp
      then obtain err where "Parse (Now e) v (keyFunc m) = Inl err"
        using not_verifies_Parse by blast
      with nv True show ?thesis by (simp add: c IH)
    next
      case False
      then show ?thesis by (simp add: c IH)
    qed
  next
    case True
    then obtain a obj sg where v: "v = Jwt a obj sg" by (cases v) (auto simp: verifies_def)
    from True Cons.prems obtain s where s: "requestID_claim v = Some s" by (auto simp: c)
    have p: "Parse (Now e) v (keyFunc m) = Inr \<lparr>Method = a, Claims = Unmarshal obj, Valid = True\<rparr>"
      using True v verifies_Parse by simp
    from s v have "map_of (Unmarshal obj) ''id'' = Some (JStr s)"
      by (auto simp: requestID_claim_def split: option.splits json.splits)
    with True p s v show ?thesis by (simp add: c IH)
  qed
qed

text \<open>When every \<open>saml_\<close> cookie that verifies carries a string claim \<open>id\<close>,
  \<open>getPossibleRequestIDs\<close> returns exactly the request IDs of the \<open>saml_\<close> cookies
  that verify, skipping the others, followed by the empty string when IdP-initiated logins
  are allowed.\<close>

lemma getPossibleRequestIDs_valid:
  assumes "\<forall>(name, v) \<in> set (Cookies r). HasPrefix name ''saml_'' \<and> verifies m e v \<longrightarrow> requestID_claim v \<noteq> None"
  shows "getPossibleRequestIDs m e r =
           Done (valid_request_ids m e (Cookies r) @ (if AllowIDPInitiated m then [''''] else []))"
  using collect_ids_valid [OF assms, of "[]"] by (simp add: getPossibleRequestIDs_def)

lemma many_cookies_ids:
  "getPossibleRequestIDs sample_middleware sample_env many_cookies_request
     = Done [''id-1'', ''id-2'']
   \<and> getPossibleRequestIDs idp_middleware sample_env many_cookies_request
     = Done [''id-1'', ''id-2'', []]"
proof -
  have k: "Key (ServiceProvider idp_middleware) = sample_key" "AllowIDPInitiated idp_middleware"
    by (simp_all add: idp_middleware_def sample_defs)
  have 1: "\<forall>(name, v) \<in> set (Cookies many_cookies_request).
             HasPrefix name ''saml_'' \<and> verifies sample_middleware sample_env v
               \<longrightarrow> requestID_claim v \<noteq> None"
    by (simp add: many_cookies_request_def requestID_claim_def signed_by_def state_claims_list
        Unmarshal_def verifies_def)
  have 2: "\<forall>(name, v) \<in> set (Cookies many_cookies_request).
             HasPrefix name ''saml_'' \<and> verifies idp_middleware sample_env v
               \<longrightarrow> requestID_claim v \<noteq> None"
    by (simp add: many_cookies_request_def requestID_claim_def signed_by_def state_claims_list
        Unmarshal_def verifies_def)
  from getPossibleRequestIDs_valid [OF 1] getPossibleRequestIDs_valid [OF 2] show ?thesis
    by (simp add: many_cookies_request_def requestID_claim_def signed_by_def state_claims_list
        Unmarshal_def verifies_def HasPrefix_def expired_def SigningMethodRSA_def sample_facts k)
qed

text \<open>C4: of two correlation cookies, a corrupted one, an empty one and a cookie of
  another name, \<open>getPossibleRequestIDs\<close> returns exactly the two request IDs, and the empty
  string as well when IdP-initiated logins are allowed. But a \<open>saml_\<close> cookie that
  verifies and has no string claim \<open>id\<close>, such as the session token, is not skipped: the
  scan panics and returns nothing.\<close>

theorem getPossibleRequestIDs_panics:
  "getPossibleRequestIDs sample_middleware sample_env many_cookies_request
     = Done [''id-1'', ''id-2'']
   \<and> getPossibleRequestIDs idp_middleware sample_env many_cookies_request
     = Done [''id-1'', ''id-2'', []]
   \<and> verifies sample_middleware sample_env sample_session
   \<and> getPossibleRequestIDs sample_middleware sample_env misplaced_session_request
       = Panic ''interface conversion: interface {} is not string''"
proof -
  have p: "Parse 1000 sample_session (keyFunc sample_middleware)
     = Inr \<lparr>Method = RS256,
            Claims = [(''uid'', JArr [JStr ''alice'']),
                      (''role'', JArr [JStr ''user'', JStr ''admin'']), (''exp'', JNum 4600)],
            Valid = True\<rparr>"
    by (simp add: sample_session_def signed_by_def Parse_Inr_iff SigningMethodRSA_def
        Unmarshal_def expired_def)
  have v: "verifies sample_middleware sample_env sample_session"
    by (simp add: verifies_def sample_session_def signed_by_def SigningMethodRSA_def
        Unmarshal_def expired_def sample_facts)
  have s: "sample_session \<noteq> Str []" by (simp add: sample_session_def signed_by_def)
  have "getPossibleRequestIDs sample_middleware sample_env misplaced_session_request
       = Panic ''interface conversion: interface {} is not string''"
    using s by (simp add: getPossibleRequestIDs_def misplaced_session_request_def sample_facts
        HasPrefix_def p)
  with v many_cookies_ids show ?thesis by simp
qed

subsection \<open>Session round trip\<close>

lemma attribute_claims_distinct:
  "distinct (map claim_name attrs) \<Longrightarrow> claim_name ` set attrs \<inter> fst ` set c = {} \<Longrightarrow>
   attribute_claims attrs c = c @ map attribute_claim attrs"
proof (induction attrs arbitrary: c)
  case Nil
  then show ?case by simp
next
  case (Cons a attrs)
  from Cons.prems have "claim_name a \<notin> fst ` set c" by auto
  then have s: "assign (claim_name a) (JArr (map JStr (Values a))) c = c @ [attribute_claim a]"
    by (simp add: assign_new attribute_claim_def)
  have "claim_name ` set attrs \<inter> fst ` set (c @ [attribute_claim a]) = {}"
    using Cons.prems by (auto simp: attribute_claim_def)
  moreover have "distinct (map claim_name attrs)" using Cons.prems by simp
  ultimately have "attribute_claims attrs (c @ [attribute_claim a]) = (c @ [attribute_claim a]) @ map attribute_claim attrs"
    by (rule Cons.IH [rotated])
  then show ?case using s by (simp add: Let_def claim_name_def)
qed

lemma add_claims_skip_exp:
  "add_claims cl h = add_claims (filter (\<lambda>(n, v). n \<noteq> ''exp'') cl) h"
  by (induction cl h rule: add_claims.induct) (auto split: json.splits result.splits)

lemma add_claim_values_strings:
  "\<exists>h'. add_claim_values n (map JStr vs) h = Done h' \<and>
      (\<forall>k. Header_Values h' k = Header_Values h k @ (if k = claim_header n then vs else [])) \<and>
      fst ` set h' \<subseteq> insert (claim_header n) (fst ` set h)"
proof (induction vs arbitrary: h)
  case Nil
  then show ?case by auto
next
  case (Cons s vs)
  obtain h' where h': "add_claim_values n (map JStr vs) (Header_Add h (''X-Saml-'' @ n) s) = Done h'"
    and v: "\<forall>k. Header_Values h' k = Header_Values (Header_Add h (''X-Saml-'' @ n) s) k @ (if k = claim_header n then vs else [])"
    and ks: "fst ` set h' \<subseteq> insert (claim_header n) (fst ` set (Header_Add h (''X-Saml-'' @ n) s))"
    using Cons.IH by blast
  have "add_claim_values n (map JStr (s # vs)) h = Done h'" using h' by simp
  moreover have "\<forall>k. Header_Values h' k = Header_Values h k @ (if k = claim_header n then s # vs else [])"
    using v by (simp add: Header_Values_Add claim_header_def)
  moreover have "fst ` set h' \<subseteq> insert (claim_header n) (fst ` set h)"
    using ks by (simp add: keys_Header_Add claim_header_def)
  ultimately show ?case by blast
qed

lemma add_claims_attributes:
  "\<forall>a \<in> set attrs. claim_name a \<noteq> ''exp'' \<Longrightarrow>
   \<exists>h'. add_claims (map attribute_claim attrs) h = Done h' \<and>
      (\<forall>k. Header_Values h' k =
            Header_Values h k @ concat (map (\<lambda>a. if claim_header (claim_name a) = k then Values a else []) attrs)) \<and>
      fst ` set h' \<subseteq> fst ` set h \<union> (\<lambda>a. claim_header (claim_name a)) ` set attrs"
proof (induction attrs arbitrary: h)
  case Nil
  then show ?case by simp
next
  case (Cons a attrs)
  obtain h1 where h1: "add_claim_values (claim_name a) (map JStr (Values a)) h = Done h1"
    and v1: "\<forall>k. Header_Values h1 k = Header_Values h k @ (if k = claim_header (claim_name a) then Values a else [])"
    and k1: "fst ` set h1 \<subseteq> insert (claim_header (claim_name a)) (fst ` set h)"
    using add_claim_values_strings by blast
  from Cons.prems have "\<forall>a \<in> set attrs. claim_name a \<noteq> ''exp''" by simp
  from Cons.IH [OF this, of h1] obtain h' where h': "add_claims (map attribute_claim attrs) h1 = Done h'"
    and v: "\<forall>k. Header_Values h' k =
            Header_Values h1 k @ concat (map (\<lambda>a. if claim_header (claim_name a) = k then Values a else []) attrs)"
    and ks: "fst ` set h' \<subseteq> fst ` set h1 \<union> (\<lambda>a. claim_header (claim_name a)) ` set attrs"
    by blast
  from Cons.prems have ne: "claim_name a \<noteq> ''exp''" by simp
  have "add_claims (map attribute_claim (a # attrs)) h = Done h'"
    using h1 h' ne by (simp add: attribute_claim_def)
  moreover have "\<forall>k. Header_Values h' k =
            Header_Values h k @ concat (map (\<lambda>a. if claim_header (claim_name a) = k then Values a else []) (a # attrs))"
    using v v1 by simp
  moreover have "fst ` set h' \<subseteq> fst ` set h \<union> (\<lambda>a. claim_header (claim_name a)) ` set (a # attrs)"
    using ks k1 by auto
  ultimately show ?case by blast
qed

lemma concat_single:
  "distinct (map f xs) \<Longrightarrow> x \<in> set xs \<Longrightarrow>
   concat (map (\<lambda>a. if f a = f x then g a else []) xs) = g x"
proof (induction xs)
  case Nil
  then show ?case by simp
next
  case (Cons y xs)
  show ?case
  proof (cases "y = x")
    case True
    from Cons.prems have "f x \<notin> f ` set xs" by (simp add: True)
    then have "concat (map (\<lambda>a. if f a = f x then g a else []) xs) = []"
      by (induction xs) auto
    then show ?thesis by (simp add: True)
  next
    case False
    with Cons.prems have x: "x \<in> set xs" by simp
    with Cons.prems have "f y \<noteq> f x" by auto
    moreover have "concat (map (\<lambda>a. if f a = f x then g a else []) xs) = g x"
      using Cons.IH Cons.prems x by simp
    ultimately show ?thesis by simp
  qed
qed

lemma resolve_state_forbidden:
  "resolve_state m e w r = Done (Inl f) \<Longrightarrow> f = w @ [Error ''Forbidden'' 403]"
  by (auto simp: resolve_state_def StatusText_def StatusForbidden_def
      split: if_splits option.splits sum.splits json.splits)

lemma Authorize_issued:
  assumes "Authorize m e w r0 a = Done (resp @ [SetCookie c, Redirect uri code])"
  shows "c = \<lparr>Name = cookieName, Value = signed_by m RS256 (session_claims e a), Path = ''/'',
              MaxAge = cookieMaxAge, Expires = zeroTime, HttpOnly = False\<rparr>"
proof (cases "resolve_state m e w r0")
  case (Panic p)
  with assms show ?thesis by (simp add: Authorize_def)
next
  case (Done x)
  show ?thesis
  proof (cases x)
    case (Inl f)
    with Done have "f = w @ [Error ''Forbidden'' 403]" by (simp add: resolve_state_forbidden)
    with assms Done Inl have "w @ [Error ''Forbidden'' 403] = (resp @ [SetCookie c]) @ [Redirect uri code]"
      by (simp add: Authorize_def)
    then show ?thesis by (simp only: append1_eq_conv) simp
  next
    case (Inr p)
    obtain w' u where p: "p = (w', u)" by (cases p)
    show ?thesis
    proof (cases "usable (Key (ServiceProvider m))")
      case False
      with assms Done Inr p show ?thesis by (simp add: Authorize_def SignedString_def)
    next
      case True
      with assms Done Inr p have
        "(w' @ [SetCookie \<lparr>Name = cookieName, Value = signed_by m RS256 (session_claims e a), Path = ''/'',
              MaxAge = cookieMaxAge, Expires = zeroTime, HttpOnly = False\<rparr>]) @ [Redirect u StatusFound]
          = (resp @ [SetCookie c]) @ [Redirect uri code]"
        by (simp add: Authorize_def SignedString_def signed_by_def)
      then show ?thesis by (simp only: append1_eq_conv) simp
    qed
  qed
qed

lemma distinct_map_inner: "distinct (map (\<lambda>x. f (g x)) xs) \<Longrightarrow> distinct (map g xs)"
  by (induction xs) auto

lemma concat_none: "k \<notin> f ` set xs \<Longrightarrow> concat (map (\<lambda>a. if f a = k then g a else []) xs) = []"
  by (induction xs) auto

lemma session_claims_shape:
  assumes "distinct (map claim_name (Attributes a))"
  shows "distinct (map fst (session_claims e a))"
    and "map_of (session_claims e a) ''exp'' = Some (JNum (Now e + cookieMaxAge))"
    and "filter (\<lambda>(n, v). n \<noteq> ''exp'') (session_claims e a)
           = map attribute_claim (filter (\<lambda>attr. claim_name attr \<noteq> ''exp'') (Attributes a))"
proof -
  have ac: "attribute_claims (Attributes a) [] = map attribute_claim (Attributes a)"
    using attribute_claims_distinct [OF assms, of "[]"] by simp
  have "map fst (map attribute_claim (Attributes a)) = map claim_name (Attributes a)"
    by (simp add: attribute_claim_def comp_def)
  with assms have "distinct (map fst (map attribute_claim (Attributes a)))" by (simp only:)
  then show "distinct (map fst (session_claims e a))"
    unfolding session_claims_def ac by (rule distinct_assign)
  show "map_of (session_claims e a) ''exp'' = Some (JNum (Now e + cookieMaxAge))"
    by (simp add: session_claims_def map_of_assign)
  show "filter (\<lambda>(n, v). n \<noteq> ''exp'') (session_claims e a)
           = map attribute_claim (filter (\<lambda>attr. claim_name attr \<noteq> ''exp'') (Attributes a))"
    by (simp add: session_claims_def ac filter_assign filter_map comp_def attribute_claim_def)
qed

lemma map_JStr_eq: "map JStr xs = map JStr ys \<Longrightarrow> xs = ys"
  by (simp add: inj_map_eq_map inj_def)

lemma list_of_image: "set ys \<subseteq> f ` A \<Longrightarrow> \<exists>xs. ys = map f xs \<and> set xs \<subseteq> A"
proof (induction ys)
  case Nil
  then show ?case by simp
next
  case (Cons y ys)
  then obtain xs where xs: "ys = map f xs" "set xs \<subseteq> A" by auto
  from Cons.prems obtain x where "x \<in> A" "y = f x" by auto
  with xs have "y # ys = map f (x # xs) \<and> set (x # xs) \<subseteq> A" by simp
  then show ?case by (rule exI [of _ "x # xs"])
qed

text \<open>C1, as the code has it: when no two attributes of the assertion share a request
  header, the session cookie \<open>Authorize\<close> issues, validated by \<open>IsAuthorized\<close> no later
  than its expiry on a request without \<open>X-Saml\<close> headers, is accepted whatever order
  \<open>range\<close> takes, and afterwards the header of every attribute not named \<open>exp\<close> holds
  exactly that attribute's values in their order, every \<open>X-Saml\<close> header is the header of
  such an attribute, and the other headers are as they were.\<close>

theorem session_round_trip:
  assumes issue: "Authorize m e w r0 a = Done (resp @ [SetCookie c, Redirect uri code])"
    and names: "distinct (map (\<lambda>attr. claim_header (claim_name attr)) (Attributes a))"
    and carried: "Cookie r cookieName = Some c'" "Value c' = Value c"
    and clean: "\<not> list_ex (\<lambda>(headerName, vs). HasPrefix headerName ''X-Saml'') (Header r)"
    and time: "Now e' \<le> Now e + cookieMaxAge"
    and order: "\<And>cl. mset (RangeOrder e' cl) = mset cl"
  shows "\<exists>h. IsAuthorized m e' r = Done (True, r\<lparr>Header := h\<rparr>) \<and>
           (\<forall>attr \<in> set (Attributes a). claim_name attr \<noteq> ''exp'' \<longrightarrow>
               Header_Values h (claim_header (claim_name attr)) = Values attr) \<and>
           (\<forall>k \<in> fst ` set h. HasPrefix k ''X-Saml'' \<longrightarrow>
               (\<exists>attr \<in> set (Attributes a). claim_name attr \<noteq> ''exp'' \<and> k = claim_header (claim_name attr))) \<and>
           (\<forall>k. \<not> HasPrefix k ''X-Saml'' \<longrightarrow> Header_Values h k = Header_Values (Header r) k)"
proof -
  let ?hk = "\<lambda>attr. claim_header (claim_name attr)"
  let ?attrs = "filter (\<lambda>attr. claim_name attr \<noteq> ''exp'') (Attributes a)"
  let ?cl = "session_claims e a"
  let ?visited = "filter (\<lambda>(n, v). n \<noteq> ''exp'') (RangeOrder e' ?cl)"
  have dn: "distinct (map claim_name (Attributes a))"
    using names by (rule distinct_map_inner)
  have v: "Value c' = signed_by m RS256 ?cl"
    using Authorize_issued [OF issue] carried by simp
  have un: "Unmarshal ?cl = ?cl"
    using session_claims_shape(1) [OF dn] by (rule Unmarshal_distinct)
  have "\<not> expired (Now e') ?cl"
    using time by (simp add: expired_def session_claims_shape(2) [OF dn])
  then have parse: "Parse (Now e') (Value c') (keyFunc m) = Inr \<lparr>Method = RS256, Claims = ?cl, Valid = True\<rparr>"
    by (simp add: v signed_by_def Parse_Inr_iff un SigningMethodRSA_def)
  have "mset ?visited = mset (filter (\<lambda>(n, v). n \<noteq> ''exp'') ?cl)"
    by (simp add: order)
  then have mv: "mset ?visited = mset (map attribute_claim ?attrs)"
    by (simp only: session_claims_shape(3) [OF dn])
  then have "set ?visited = set (map attribute_claim ?attrs)"
    by (rule mset_eq_setD)
  then have sv: "set ?visited = attribute_claim ` set ?attrs"
    by simp
  then obtain xs where xs: "?visited = map attribute_claim xs" and sub: "set xs \<subseteq> set ?attrs"
    using list_of_image [of ?visited attribute_claim "set ?attrs"] by auto
  have "map ?hk xs = map (\<lambda>p. claim_header (fst p)) ?visited"
    by (simp add: xs attribute_claim_def)
  moreover have "map ?hk ?attrs = map (\<lambda>p. claim_header (fst p)) (map attribute_claim ?attrs)"
    by (simp add: attribute_claim_def)
  moreover have "mset (map (\<lambda>p. claim_header (fst p)) ?visited)
      = mset (map (\<lambda>p. claim_header (fst p)) (map attribute_claim ?attrs))"
    using mv by (simp only: mset_map)
  ultimately have "mset (map ?hk xs) = mset (map ?hk ?attrs)"
    by (simp only:)
  then have "distinct (map ?hk xs) = distinct (map ?hk ?attrs)"
    by (rule mset_eq_imp_distinct_iff)
  moreover have "distinct (map ?hk ?attrs)"
    using names by (rule distinct_map_filter)
  ultimately have dx: "distinct (map ?hk xs)"
    by (simp only:)
  have "\<forall>attr \<in> set xs. claim_name attr \<noteq> ''exp''" using sub by auto
  from add_claims_attributes [OF this, of "Header r"] obtain h where
    h: "add_claims (map attribute_claim xs) (Header r) = Done h"
    and vals: "\<forall>k. Header_Values h k =
            Header_Values (Header r) k @ concat (map (\<lambda>attr. if ?hk attr = k then Values attr else []) xs)"
    and keys: "fst ` set h \<subseteq> fst ` set (Header r) \<union> ?hk ` set xs"
    by blast
  have "add_claims (RangeOrder e' ?cl) (Header r) = Done h"
    using h add_claims_skip_exp [of "RangeOrder e' ?cl" "Header r"] by (simp add: xs)
  with parse carried clean have auth: "IsAuthorized m e' r = Done (True, r\<lparr>Header := h\<rparr>)"
    by (simp add: IsAuthorized_def)
  have one: "Header_Values h (?hk attr) = Values attr"
    if "attr \<in> set (Attributes a)" "claim_name attr \<noteq> ''exp''" for attr
  proof -
    from that have "attribute_claim attr \<in> attribute_claim ` set ?attrs" by simp
    also have "\<dots> = set (map attribute_claim xs)"
      using sv by (simp add: xs)
    finally obtain x where x: "x \<in> set xs" "attribute_claim x = attribute_claim attr" by auto
    from x(2) have same: "claim_name x = claim_name attr" "Values x = Values attr"
      by (auto simp: attribute_claim_def dest: map_JStr_eq)
    from concat_single [OF dx x(1), of Values]
    have "concat (map (\<lambda>y. if ?hk y = ?hk attr then Values y else []) xs) = Values attr"
      by (simp add: same)
    moreover have "Header_Values (Header r) (?hk attr) = []"
      using no_reserved_header [OF clean canonical_prefix] by (rule Header_Values_absent)
    ultimately show ?thesis using vals by simp
  qed
  have two: "\<exists>attr \<in> set (Attributes a). claim_name attr \<noteq> ''exp'' \<and> k = ?hk attr"
    if "k \<in> fst ` set h" "HasPrefix k ''X-Saml''" for k
  proof -
    from that(2) have "k \<notin> fst ` set (Header r)" by (rule no_reserved_header [OF clean])
    with that(1) keys have "k \<in> ?hk ` set xs" by blast
    with sub show ?thesis by auto
  qed
  have three: "Header_Values h k = Header_Values (Header r) k" if "\<not> HasPrefix k ''X-Saml''" for k
  proof -
    from that have "k \<notin> ?hk ` set xs" using canonical_prefix by auto
    then have "concat (map (\<lambda>attr. if ?hk attr = k then Values attr else []) xs) = []"
      by (rule concat_none)
    with vals show ?thesis by simp
  qed
  from auth one two three show ?thesis by blast
qed

theorem session_round_trip_witness:
  "Authorize sample_middleware sample_env [] sample_request sample_assertion
     = Done ([] @ [SetCookie \<lparr>Name = ''token'', Value = sample_session,
                        Path = ''/'', MaxAge = 3600, Expires = zeroTime, HttpOnly = False\<rparr>,
             Redirect ''/'' 302])
   \<and> distinct (map (\<lambda>attr. claim_header (claim_name attr)) (Attributes sample_assertion))
   \<and> Now later \<le> Now sample_env + cookieMaxAge
   \<and> (\<exists>h. IsAuthorized sample_middleware later (sample_request\<lparr>Cookies := [(''token'', sample_session)]\<rparr>)
            = Done (True, sample_request\<lparr>Cookies := [(''token'', sample_session)], Header := h\<rparr>)
          \<and> Header_Values h ''X-Saml-Uid'' = [''alice'']
          \<and> Header_Values h ''X-Saml-Role'' = [''user'', ''admin''])"
proof -
  let ?c = "\<lparr>Name = ''token'', Value = sample_session,
                        Path = ''/'', MaxAge = 3600, Expires = zeroTime, HttpOnly = False\<rparr>"
  let ?r = "sample_request\<lparr>Cookies := [(''token'', sample_session)]\<rparr>"
  let ?c' = "\<lparr>Name = ''token'', Value = sample_session,
                        Path = [], MaxAge = 0, Expires = zeroTime, HttpOnly = False\<rparr>"
  have issue: "Authorize sample_middleware sample_env [] sample_request sample_assertion
     = Done ([] @ [SetCookie ?c, Redirect ''/'' 302])"
    using sample_Authorize by simp
  have names: "distinct (map (\<lambda>attr. claim_header (claim_name attr)) (Attributes sample_assertion))"
    by (simp add: sample_assertion_def claim_name_def sample_headers)
  have carried: "Cookie ?r cookieName = Some ?c'" "Value ?c' = Value ?c"
    by (simp_all add: Cookie_def cookieName_def)
  have clean: "\<not> list_ex (\<lambda>(headerName, vs). HasPrefix headerName ''X-Saml'') (Header ?r)"
    by (simp add: sample_facts)
  have time: "Now later \<le> Now sample_env + cookieMaxAge"
    by (simp add: sample_facts later_facts cookieMaxAge_def)
  have order: "mset (RangeOrder later cl) = mset cl" for cl
    by (simp add: later_facts)
  from session_round_trip [OF issue names carried clean time order]
  obtain h where h: "IsAuthorized sample_middleware later ?r = Done (True, ?r\<lparr>Header := h\<rparr>)"
    and v: "\<forall>attr \<in> set (Attributes sample_assertion). claim_name attr \<noteq> ''exp'' \<longrightarrow>
               Header_Values h (claim_header (claim_name attr)) = Values attr"
    by blast
  from v have "Header_Values h ''X-Saml-Uid'' = [''alice'']"
    "Header_Values h ''X-Saml-Role'' = [''user'', ''admin'']"
    by (simp_all add: sample_assertion_def claim_name_def sample_headers)
  with h issue names time show ?thesis by auto
qed

text \<open>Two attributes that differ in case only share one header, which then holds the values
  of both, in the order \<open>range\<close> happened to take: the header of \<open>uid\<close> is not the
  values of \<open>uid\<close>.\<close>

theorem colliding_names_merge:
  "Authorize sample_middleware sample_env [] sample_request colliding_assertion
     = Done [SetCookie \<lparr>Name = ''token'', Value = colliding_session,
                        Path = ''/'', MaxAge = 3600, Expires = zeroTime, HttpOnly = False\<rparr>,
             Redirect ''/'' 302]
   \<and> IsAuthorized sample_middleware sample_env
        (sample_request\<lparr>Cookies := [(''token'', colliding_session)]\<rparr>)
     = Done (True, sample_request\<lparr>Cookies := [(''token'', colliding_session)],
                                  Header := [(''X-Saml-Uid'', [''alice'', ''bob''])]\<rparr>)
   \<and> IsAuthorized sample_middleware (sample_env\<lparr>RangeOrder := rev\<rparr>)
        (sample_request\<lparr>Cookies := [(''token'', colliding_session)]\<rparr>)
     = Done (True, sample_request\<lparr>Cookies := [(''token'', colliding_session)],
                                  Header := [(''X-Saml-Uid'', [''bob'', ''alice''])]\<rparr>)
   \<and> Header_Values [(''X-Saml-Uid'', [''alice'', ''bob''])] (claim_header ''uid'') \<noteq> [''alice'']
   \<and> Header_Values [(''X-Saml-Uid'', [''bob'', ''alice''])] (claim_header ''uid'') \<noteq> [''alice'']"
proof -
  have cl: "session_claims sample_env colliding_assertion
     = [(''uid'', JArr [JStr ''alice'']), (''UID'', JArr [JStr ''bob'']), (''exp'', JNum 4600)]"
    by (simp add: session_claims_def colliding_assertion_def sample_facts cookieMaxAge_def)
  have 1: "Authorize sample_middleware sample_env [] sample_request colliding_assertion
     = Done [SetCookie \<lparr>Name = ''token'', Value = colliding_session,
                        Path = ''/'', MaxAge = 3600, Expires = zeroTime, HttpOnly = False\<rparr>,
             Redirect ''/'' 302]"
    by (simp add: Authorize_def resolve_state_def cl sample_facts Form_Get_def SignedString_def
        colliding_session_def signed_by_def cookieName_def cookieMaxAge_def StatusFound_def)
  have h: "CanonicalHeaderKey ''X-Saml-uid'' = ''X-Saml-Uid''"
    "CanonicalHeaderKey ''X-Saml-UID'' = ''X-Saml-Uid''"
    using sample_headers by (simp_all add: claim_header_def)
  have p: "Parse 1000 colliding_session (keyFunc sample_middleware)
     = Inr \<lparr>Method = RS256,
            Claims = [(''uid'', JArr [JStr ''alice'']), (''UID'', JArr [JStr ''bob'']),
                      (''exp'', JNum 4600)],
            Valid = True\<rparr>"
    by (simp add: colliding_session_def signed_by_def Parse_Inr_iff SigningMethodRSA_def
        Unmarshal_def expired_def)
  have 2: "IsAuthorized sample_middleware sample_env
        (sample_request\<lparr>Cookies := [(''token'', colliding_session)]\<rparr>)
     = Done (True, sample_request\<lparr>Cookies := [(''token'', colliding_session)],
                                  Header := [(''X-Saml-Uid'', [''alice'', ''bob''])]\<rparr>)"
    using h by (simp add: IsAuthorized_def Cookie_def cookieName_def sample_facts p Header_Add_def)
  have 3: "IsAuthorized sample_middleware (sample_env\<lparr>RangeOrder := rev\<rparr>)
        (sample_request\<lparr>Cookies := [(''token'', colliding_session)]\<rparr>)
     = Done (True, sample_request\<lparr>Cookies := [(''token'', colliding_session)],
                                  Header := [(''X-Saml-Uid'', [''bob'', ''alice''])]\<rparr>)"
    using h by (simp add: IsAuthorized_def Cookie_def cookieName_def sample_facts p Header_Add_def)
  have 4: "Header_Values [(''X-Saml-Uid'', [''alice'', ''bob''])] (claim_header ''uid'') \<noteq> [''alice'']"
    "Header_Values [(''X-Saml-Uid'', [''bob'', ''alice''])] (claim_header ''uid'') \<noteq> [''alice'']"
    by (simp_all add: sample_headers Header_Values_def)
  from 1 2 3 4 show ?thesis by simp
qed

subsection \<open>Correlation round trip\<close>













end
